theory Spec2Isabelle
  imports Main "HOL-Library.Sublist"
begin

section \<open>Strings\<close>

text \<open>
  JavaScript strings are modelled as \<^typ>\<open>string\<close>, one \<^typ>\<open>char\<close> per code unit
  (code units below 256), which covers every template and marker of the program.
  \<open>startsWith s m\<close> is \<^verbatim>\<open>s.startsWith(m)\<close> and \<open>str_includes s m\<close> is
  \<^verbatim>\<open>s.includes(m)\<close>.
\<close>

fun startsWith :: "string \<Rightarrow> string \<Rightarrow> bool" where
  "startsWith s [] = True"
| "startsWith [] (c # m) = False"
| "startsWith (x # s) (c # m) = (if x = c then startsWith s m else False)"

fun str_includes :: "string \<Rightarrow> string \<Rightarrow> bool" where
  "str_includes [] m = (m = [])"
| "str_includes (x # s) m = (if startsWith (x # s) m then True else str_includes s m)"

text \<open>
  The white space of \<^verbatim>\<open>\s\<close> and of \<^verbatim>\<open>trim()\<close> among the code units below 256: tab, line
  feed, vertical tab, form feed, carriage return, space and the no-break space.
\<close>

definition isSpace :: "char \<Rightarrow> bool" where
  "isSpace c = (of_char c \<in> {9, 10, 11, 12, 13, 32, 160 :: nat})"

definition trim :: "string \<Rightarrow> string" where
  "trim s = rev (dropWhile isSpace (rev (dropWhile isSpace s)))"


text \<open>\<^verbatim>\<open>xs.join(sep)\<close>.\<close>

fun joinWith :: "string \<Rightarrow> string list \<Rightarrow> string" where
  "joinWith sep [] = []"
| "joinWith sep [x] = x"
| "joinWith sep (x # y # ys) = x @ sep @ joinWith sep (y # ys)"

text \<open>The lines of a template literal, joined by line feeds.\<close>

definition lines :: "string list \<Rightarrow> string" where
  "lines ls = joinWith [CHR 0x0A] ls"



section \<open>Request values\<close>

text \<open>
  A customization value is a JSON value. The program only asks whether it is a string,
  whether it is truthy, and for the text a template literal renders it as: \<open>JString s\<close>
  is the string \<open>s\<close>; \<open>JOther t r\<close> is any other value, truthy iff \<open>t\<close>, rendered as \<open>r\<close>.
  The optional \<^verbatim>\<open>customizations\<close> object is the list of its entries, in
  \<^verbatim>\<open>Object.entries\<close> order, or \<open>None\<close> when the field is absent.
\<close>

datatype jsval = JString string | JOther bool string

type_synonym customizations = "(string \<times> jsval) list option"


fun truthy :: "jsval \<Rightarrow> bool" where
  "truthy (JString s) = (s \<noteq> [])"
| "truthy (JOther t r) = t"

fun toText :: "jsval \<Rightarrow> string" where
  "toText (JString s) = s"
| "toText (JOther t r) = r"

text \<open>\<^verbatim>\<open>customizations?.key\<close>.\<close>

definition getProp :: "customizations \<Rightarrow> string \<Rightarrow> jsval option" where
  "getProp c k = (case c of None \<Rightarrow> None | Some es \<Rightarrow> map_of es k)"

text \<open>The text of \<^verbatim>\<open>${customizations?.key || d}\<close>.\<close>

definition propOr :: "customizations \<Rightarrow> string \<Rightarrow> string \<Rightarrow> string" where
  "propOr c k d =
     (case getProp c k of
        None \<Rightarrow> d
      | Some v \<Rightarrow> (if truthy v then toText v else d))"

section \<open>The content validator (aiService.ts)\<close>


section \<open>Extraction of the contract code from a provider answer (aiService.ts)\<close>







section \<open>The fallback templates (aiService.ts, getFallbackContract)\<close>





















section \<open>The global axios response interceptor (server)\<close>

text \<open>
  One HTTP attempt either yields a 2xx response (\<open>Reply\<close>, carrying the text found at
  \<^verbatim>\<open>data.choices[0].message.content\<close> when there is one) or fails: with a response of
  another status, with no response at all (timeout, transport error), or with an error
  that carries no request configuration.
\<close>

datatype failure = HttpStatus nat | NoResponse | NoConfig

datatype reply = Reply "string option" | Failed failure

text \<open>The two custom fields the interceptor keeps on the request configuration.\<close>

record config =
  retryCount :: "nat option"
  maxRetries :: "nat option"

definition freshConfig :: config where
  "freshConfig = \<lparr>retryCount = None, maxRetries = None\<rparr>"

text \<open>\<^verbatim>\<open>v || d\<close> on an optional number: an absent field and 0 are both falsy.\<close>

definition orDefault :: "nat option \<Rightarrow> nat \<Rightarrow> nat" where
  "orDefault v d = (case v of None \<Rightarrow> d | Some n \<Rightarrow> (if n = 0 then d else n))"

definition noRetryStatus :: "failure \<Rightarrow> bool" where
  "noRetryStatus f = (f = HttpStatus 400 \<or> f = HttpStatus 401 \<or> f = HttpStatus 403)"

definition backoffDelay :: "nat \<Rightarrow> nat" where
  "backoffDelay n = 2 ^ n * 1000"

text \<open>
  \<open>axiosSend srv n cfg\<close> issues attempt number \<open>n\<close> of one request against a server
  whose answer to the \<open>k\<close>-th attempt is \<open>srv k\<close>, and runs the interceptor on a failure.
  It returns the settled promise (\<open>Inr\<close> fulfilled, \<open>Inl\<close> rejected) and the list of
  backoff delays, in milliseconds, slept before each retry; the number of retries is the
  length of that list.
\<close>

function axiosSend :: "(nat \<Rightarrow> reply) \<Rightarrow> nat \<Rightarrow> config \<Rightarrow> (failure + string option) \<times> nat list" where
  "axiosSend srv n cfg =
     (case srv n of
        Reply body \<Rightarrow> (Inr body, [])
      | Failed f \<Rightarrow>
          (if f = NoConfig then (Inl f, [])
           else if noRetryStatus f then (Inl f, [])
           else if orDefault (retryCount cfg) 0 < orDefault (maxRetries cfg) 3 then
             (case axiosSend srv (Suc n)
                     \<lparr>retryCount = Some (orDefault (retryCount cfg) 0 + 1),
                      maxRetries = Some (orDefault (maxRetries cfg) 3)\<rparr> of
                (res, ds) \<Rightarrow> (res, backoffDelay (orDefault (retryCount cfg) 0 + 1) # ds))
           else (Inl f, [])))"
  by pat_completeness auto
termination
  by (relation "measure (\<lambda>(srv, n, cfg). orDefault (maxRetries cfg) 3 - orDefault (retryCount cfg) 0)")
     (auto simp: orDefault_def split: option.splits if_splits)

declare axiosSend.simps [simp del]

text \<open>A server that gives the same answer to every attempt.\<close>

definition always :: "reply \<Rightarrow> nat \<Rightarrow> reply" where
  "always r n = r"

datatype provider = Together | OpenRouter | AIML

section \<open>generateCustomContract (aiService.ts) and its controller\<close>










section \<open>processWithPersona (server)\<close>

datatype persona = nanjunda | achyutha | sandeep

fun personaName :: "persona \<Rightarrow> string" where
  "personaName nanjunda = ''nanjunda''"
| "personaName achyutha = ''achyutha''"
| "personaName sandeep = ''sandeep''"

text \<open>\<^verbatim>\<open>PERSONA_CONFIGS\<close>: the fields the function reads.\<close>

fun expertise :: "persona \<Rightarrow> string" where
  "expertise nanjunda = ''architecture and tokenomics''"
| "expertise achyutha = ''development and optimization''"
| "expertise sandeep = ''security and compliance''"

fun focus :: "persona \<Rightarrow> string list" where
  "focus nanjunda = [''Token economics'', ''Access control'', ''Integration'', ''Compliance'']"
| "focus achyutha = [''Gas optimization'', ''Security'', ''Events'', ''Access controls'']"
| "focus sandeep = [''Attack vectors'', ''Vulnerabilities'', ''Economic risks'', ''Compliance'']"

fun maxTokens :: "persona \<Rightarrow> nat" where
  "maxTokens nanjunda = 4000"
| "maxTokens achyutha = 8000"
| "maxTokens sandeep = 4000"

definition systemMessageCodePart1 :: string where
  \<open>systemMessageCodePart1 = lines
    [''. IMPORTANT: Generate COMPLETE smart contract code with NO truncation. Include ALL necessary:'',
     ''  1. SPDX license identifier and pragma statement'',
     ''  2. Required imports from OpenZeppelin or other libraries'',
     ''  3. Full contract implementation with ALL functions, modifiers, and events'',
     ''  4. Detailed NatSpec comments for all functions'',
     ''  5. Full implementation of all features requested'',
     ''  6. Security best practices and gas optimizations'',
     ''  Never end the code with ellipses or placeholders - provide the complete implementation.'']\<close>

definition systemMessage :: "persona \<Rightarrow> string" where
  "systemMessage p =
     ''You are '' @ personaName p @ '', specializing in smart contract '' @ expertise p @
     ''. Focus on: '' @ joinWith '', '' (focus p) @
     (if p = achyutha then systemMessageCodePart1 else [])"

fun providerModel :: "provider \<Rightarrow> string" where
  "providerModel Together = ''deepseek-ai/DeepSeek-R1-Distill-Llama-70B-free''"
| "providerModel OpenRouter = ''google/gemini-exp-1206:free''"
| "providerModel AIML = ''mistralai/codestral-2501''"

text \<open>One request sent to a provider, with the delays of its retries.\<close>

record pcall =
  pc_provider :: provider
  pc_model :: string
  pc_system :: string
  pc_user :: string
  pc_maxTokens :: nat
  pc_backoffs :: "nat list"

text \<open>
  One provider block of \<^verbatim>\<open>processWithPersona\<close>. Without an API key the provider is
  skipped. \<open>None\<close> is every way of falling through to the next block: a rejected request,
  a response without content (reading it throws), or a text that is empty or shorter
  than 50 characters (the block throws); all of them are caught by the block.
\<close>

definition personaBlock ::
  "bool \<Rightarrow> (nat \<Rightarrow> reply) \<Rightarrow> provider \<Rightarrow> persona \<Rightarrow> string \<Rightarrow> string option \<times> pcall list" where
  "personaBlock hasKey srv pr p prompt =
     (if hasKey then
        (case axiosSend srv 0 freshConfig of
           (res, ds) \<Rightarrow>
             ((case res of
                 Inl f \<Rightarrow> None
               | Inr None \<Rightarrow> None
               | Inr (Some responseText) \<Rightarrow>
                   (if responseText = [] \<or> length responseText < 50 then None
                    else Some responseText)),
              [\<lparr>pc_provider = pr, pc_model = providerModel pr, pc_system = systemMessage p,
                pc_user = prompt, pc_maxTokens = maxTokens p, pc_backoffs = ds\<rparr>]))
      else (None, []))"

text \<open>
  The three category arguments and the options of the source function are not read by
  its body and are left out. An error is its message.
\<close>

definition processWithPersona ::
  "(provider \<Rightarrow> bool) \<Rightarrow> (provider \<Rightarrow> nat \<Rightarrow> reply) \<Rightarrow> string \<Rightarrow> persona \<Rightarrow>
     (string + string) \<times> pcall list" where
  "processWithPersona keys srv prompt p =
     (case personaBlock (keys Together) (srv Together) Together p prompt of
        (Some t, c1) \<Rightarrow> (Inr t, c1)
      | (None, c1) \<Rightarrow>
     (case personaBlock (keys OpenRouter) (srv OpenRouter) OpenRouter p prompt of
        (Some t, c2) \<Rightarrow> (Inr t, c1 @ c2)
      | (None, c2) \<Rightarrow>
     (case personaBlock (keys AIML) (srv AIML) AIML p prompt of
        (Some t, c3) \<Rightarrow> (Inr t, c1 @ c2 @ c3)
      | (None, c3) \<Rightarrow>
          (Inl ''Failed to generate content with any available API'', c1 @ c2 @ c3))))"

section \<open>Request validation and the contract template (server)\<close>

definition entityTypes :: "string list" where
  "entityTypes = [''PRIVATE LIMITED COMPANY'', ''PUBLIC LIMITED COMPANY'', ''PARTNERSHIP'', ''LLP'']"

definition transactionTypes :: "string list" where
  "transactionTypes = [''B2B'', ''B2C'', ''P2P'']"

definition contractTypes :: "string list" where
  "contractTypes =
     [''Equity Tokenization'', ''Revenue Sharing'', ''Supply Chain'', ''White Label'',
      ''Vesting Agreements'', ''Governance Token'', ''Staking Contract'', ''Liquidity Pool'']"

text \<open>
  The fragment tables and the pieces of \<^verbatim>\<open>baseTemplate\<close>, cut at its interpolations.
\<close>

definition contractTemplates_EQUITY :: string where
  \<open>contractTemplates_EQUITY = lines
    ['''',
     ''    // Additional features for equity tokens'',
     ''    uint256 public votingPower;'',
     ''    mapping(address => uint256) public lastVoteCast;'',
     ''    mapping(address => bool) public isWhitelisted;'',
     ''    '',
     ''    event VoteCast(address indexed voter, uint256 proposalId);'',
     ''    event WhitelistUpdated(address indexed account, bool status);'',
     ''  '']\<close>

definition contractTemplates_REVENUE :: string where
  \<open>contractTemplates_REVENUE = lines
    ['''',
     ''    // Revenue sharing specific features'',
     ''    uint256 public totalRevenue;'',
     ''    uint256 public revenuePerToken;'',
     ''    mapping(address => uint256) public lastRevenueWithdrawn;'',
     ''    '',
     ''    event RevenueDistributed(uint256 amount);'',
     ''    event RevenueWithdrawn(address indexed holder, uint256 amount);'',
     ''  '']\<close>

definition contractTemplates_SUPPLY_CHAIN :: string where
  \<open>contractTemplates_SUPPLY_CHAIN = lines
    ['''',
     ''    // Supply chain specific features'',
     ''    struct Product {'',
     ''        uint256 id;'',
     ''      string metadata;'',
     ''      address manufacturer;'',
     ''        uint256 timestamp;'',
     ''      Status status;'',
     ''    }'',
     ''    enum Status { Created, InTransit, Delivered }'',
     ''    mapping(uint256 => Product) public products;'',
     ''    '',
     ''    event ProductCreated(uint256 indexed id, address manufacturer);'',
     ''    event StatusUpdated(uint256 indexed id, Status status);'',
     ''  '']\<close>

definition contractTemplates_WHITE_LABEL :: string where
  \<open>contractTemplates_WHITE_LABEL = lines
    ['''',
     ''    // White Label specific features'',
     ''    struct WhiteLabelConfig {'',
     ''        string name;'',
     ''        string symbol;'',
     ''        address owner;'',
     ''      uint256 maxSupply;'',
     ''      bool transferable;'',
     ''      mapping(address => bool) authorizedMinters;'',
     ''    }'',
     ''    WhiteLabelConfig public config;'',
     ''    '',
     ''    event ConfigUpdated(string name, string symbol, uint256 maxSupply);'',
     ''    event MinterAuthorized(address indexed minter, bool status);'',
     ''    event TokenMinted(address indexed to, uint256 amount);'',
     ''  '']\<close>

definition contractTemplates_VESTING :: string where
  \<open>contractTemplates_VESTING = lines
    ['''',
     ''    // Vesting specific features'',
     ''    struct VestingSchedule {'',
     ''      uint256 totalAmount;'',
     ''      uint256 startTime;'',
     ''      uint256 cliffDuration;'',
     ''      uint256 vestingDuration;'',
     ''      uint256 releasedAmount;'',
     ''      bool revocable;'',
     ''      bool revoked;'',
     ''    }'',
     ''    mapping(address => VestingSchedule) public vestingSchedules;'',
     ''    '',
     ''    event VestingScheduleCreated(address indexed beneficiary, uint256 amount);'',
     ''    event TokensVested(address indexed beneficiary, uint256 amount);'',
     ''    event VestingRevoked(address indexed beneficiary);'',
     ''  '']\<close>

definition contractTemplates_GOVERNANCE :: string where
  \<open>contractTemplates_GOVERNANCE = lines
    ['''',
     ''    // Governance specific features'',
     ''    struct Proposal {'',
     ''      uint256 id;'',
     ''      address proposer;'',
     ''      string description;'',
     ''      uint256 forVotes;'',
     ''      uint256 againstVotes;'',
     ''      uint256 startBlock;'',
     ''      uint256 endBlock;'',
     ''      bool executed;'',
     ''    }'',
     ''    mapping(uint256 => Proposal) public proposals;'',
     ''    '',
     ''    event ProposalCreated(uint256 indexed id, address proposer);'',
     ''    event VoteCast(address indexed voter, uint256 proposalId, bool support);'',
     ''    event ProposalExecuted(uint256 indexed id);'',
     ''  '']\<close>

definition contractTemplates_STAKING :: string where
  \<open>contractTemplates_STAKING = lines
    ['''',
     ''    // Staking specific features'',
     ''    struct Stake {'',
     ''      uint256 amount;'',
     ''      uint256 timestamp;'',
     ''      uint256 duration;'',
     ''      uint256 rewards;'',
     ''    }'',
     ''    mapping(address => Stake) public stakes;'',
     ''    '',
     ''    event Staked(address indexed user, uint256 amount, uint256 duration);'',
     ''    event Unstaked(address indexed user, uint256 amount);'',
     ''    event RewardsClaimed(address indexed user, uint256 amount);'',
     ''  '']\<close>

definition contractTemplates_LIQUIDITY :: string where
  \<open>contractTemplates_LIQUIDITY = lines
    ['''',
     ''    // Liquidity Pool specific features'',
     ''    struct Pool {'',
     ''      address token0;'',
     ''      address token1;'',
     ''      uint256 reserve0;'',
     ''      uint256 reserve1;'',
     ''      uint256 totalSupply;'',
     ''    }'',
     ''    mapping(bytes32 => Pool) public pools;'',
     ''    '',
     ''    event PoolCreated(address indexed token0, address indexed token1);'',
     ''    event LiquidityAdded(address indexed provider, uint256 amount0, uint256 amount1);'',
     ''    event LiquidityRemoved(address indexed provider, uint256 amount0, uint256 amount1);'',
     ''  '']\<close>

definition entityFeatures_PRIVATE_LIMITED :: string where
  \<open>entityFeatures_PRIVATE_LIMITED = lines
    ['''',
     ''    // Private Limited Company specific features'',
     ''    uint256 public maxShareholders;'',
     ''    mapping(address => bool) public boardMembers;'',
     ''    mapping(address => uint256) public shareholderClass; // 1: Promoter, 2: Investor, 3: Employee'',
     ''    '',
     ''    event BoardMemberAdded(address indexed member);'',
     ''    event ShareholderClassUpdated(address indexed holder, uint256 class);'',
     ''    event DirectorResolutionProposed(uint256 indexed proposalId, string description);'',
     ''  '']\<close>

definition entityFeatures_PUBLIC_LIMITED :: string where
  \<open>entityFeatures_PUBLIC_LIMITED = lines
    ['''',
     ''    // Public Limited Company specific features'',
     ''    uint256 public marketCap;'',
     ''    uint256 public publicFloatPercentage;'',
     ''    mapping(address => bool) public institutionalInvestors;'',
     ''    '',
     ''    event MarketCapUpdated(uint256 newMarketCap);'',
     ''    event InstitutionalInvestorAdded(address indexed investor);'',
     ''    event QuarterlyReportPublished(string reportURI);'',
     ''  '']\<close>

definition entityFeatures_PARTNERSHIP :: string where
  \<open>entityFeatures_PARTNERSHIP = lines
    ['''',
     ''    // Partnership specific features'',
     ''    struct Partner {'',
     ''        uint256 profitShare;'',
     ''        uint256 capitalContribution;'',
     ''        bool isManaging;'',
     ''    }'',
     ''    mapping(address => Partner) public partners;'',
     ''    uint256 public totalPartners;'',
     ''    '',
     ''    event PartnerAdded(address indexed partner, uint256 profitShare);'',
     ''    event ProfitDistributed(uint256 amount);'',
     ''    event CapitalContributed(address indexed partner, uint256 amount);'',
     ''  '']\<close>

definition entityFeatures_LLP :: string where
  \<open>entityFeatures_LLP = lines
    ['''',
     ''    // LLP specific features'',
     ''    struct LLPMember {'',
     ''        uint256 liability;'',
     ''        uint256 contribution;'',
     ''        bool isDesignatedPartner;'',
     ''    }'',
     ''    mapping(address => LLPMember) public members;'',
     ''    uint256 public totalLiability;'',
     ''    '',
     ''    event MemberAdded(address indexed member, bool isDesignated);'',
     ''    event LiabilityUpdated(address indexed member, uint256 newLiability);'',
     ''    event AnnualReturnFiled(uint256 year, string reportURI);'',
     ''  '']\<close>

definition transactionFeatures_B2B :: string where
  \<open>transactionFeatures_B2B = lines
    ['''',
     ''    // B2B specific features'',
     ''    struct BusinessVerification {'',
     ''        bool isVerified;'',
     ''        uint256 creditLimit;'',
     ''        uint256 tradingVolume;'',
     ''    }'',
     ''    mapping(address => BusinessVerification) public verifiedBusinesses;'',
     ''    uint256 public minBusinessTransaction;'',
     ''    '',
     ''    event BusinessVerified(address indexed business);'',
     ''    event CreditLimitUpdated(address indexed business, uint256 limit);'',
     ''    event BulkTransferExecuted(address[] recipients, uint256[] amounts);'',
     ''  '']\<close>

definition transactionFeatures_B2C :: string where
  \<open>transactionFeatures_B2C = lines
    ['''',
     ''    // B2C specific features'',
     ''    struct ConsumerProtection {'',
     ''        uint256 refundWindow;'',
     ''        bool hasDispute;'',
     ''        mapping(uint256 => bool) purchaseHistory;'',
     ''    }'',
     ''    mapping(address => ConsumerProtection) public consumerProtections;'',
     ''    uint256 public maxConsumerPurchase;'',
     ''    '',
     ''    event ConsumerRefundRequested(address indexed consumer, uint256 amount);'',
     ''    event DisputeResolved(address indexed consumer, bool infavorOfConsumer);'',
     ''    event ConsumerLimitUpdated(uint256 newLimit);'',
     ''  '']\<close>

definition transactionFeatures_P2P :: string where
  \<open>transactionFeatures_P2P = lines
    ['''',
     ''    // P2P specific features'',
     ''    struct PeerProfile {'',
     ''        uint256 trustScore;'',
     ''        uint256 transactionCount;'',
     ''        bool isVerified;'',
     ''    }'',
     ''    mapping(address => PeerProfile) public peerProfiles;'',
     ''    uint256 public p2pTransactionLimit;'',
     ''    '',
     ''    event PeerVerified(address indexed peer);'',
     ''    event TrustScoreUpdated(address indexed peer, uint256 newScore);'',
     ''    event P2PTransferCompleted(address indexed from, address indexed to, uint256 amount);'',
     ''  '']\<close>

definition oracleFeatures :: string where
  \<open>oracleFeatures = lines
    ['''',
     ''    // Chainlink Oracle Integration'',
     ''    using Chainlink for Chainlink.Request;'',
     ''    address private oracle;'',
     ''    bytes32 private jobId;'',
     ''    uint256 private fee;'',
     ''    '',
     ''    // Price Feed interfaces'',
     ''    AggregatorV3Interface internal priceFeed;'',
     ''    '',
     ''    // Data storage'',
     ''    struct ExternalData {'',
     ''        uint256 timestamp;'',
     ''        uint256 value;'',
     ''        string source;'',
     ''        bool isValid;'',
     ''    }'',
     ''    mapping(bytes32 => ExternalData) public externalData;'',
     ''    '',
     ''    event DataRequested(bytes32 indexed requestId, string dataType);'',
     ''    event DataFulfilled(bytes32 indexed requestId, uint256 value);'',
     '''']\<close>

definition oracleInitialization :: string where
  \<open>oracleInitialization = lines
    ['''',
     ''    // Initialize Chainlink Oracle'',
     ''    setPublicChainlinkToken();'',
     ''    oracle = 0x123...; // Oracle address for your network'',
     ''    jobId = "your-job-id";'',
     ''    fee = 0.1 * 10 ** 18; // 0.1 LINK'',
     ''    '',
     ''    // Initialize Price Feed'',
     ''    priceFeed = AggregatorV3Interface(0x456...); // Price feed address'',
     '''']\<close>

definition oracleFunctions :: string where
  \<open>oracleFunctions = lines
    ['''',
     ''    function requestExternalData(string memory dataType) public returns (bytes32) {'',
     ''        Chainlink.Request memory request = buildChainlinkRequest(jobId, address(this), this.fulfill.selector);'',
     ''        request.add("dataType", dataType);'',
     ''        bytes32 requestId = sendChainlinkRequestTo(oracle, request, fee);'',
     ''        emit DataRequested(requestId, dataType);'',
     ''        return requestId;'',
     ''    }'',
     ''    '',
     ''    function fulfill(bytes32 _requestId, uint256 _value) public recordChainlinkFulfillment(_requestId) {'',
     ''        externalData[_requestId] = ExternalData({'',
     ''            timestamp: block.timestamp,'',
     ''            value: _value,'',
     ''            source: "Chainlink",'',
     ''            isValid: true'',
     ''        });'',
     ''        emit DataFulfilled(_requestId, _value);'',
     ''    }'',
     ''    '',
     ''    function getLatestPrice() public view returns (int) {'',
     ''        ('',
     ''            uint80 roundID,'',
     ''            int price,'',
     ''            uint startedAt,'',
     ''            uint timeStamp,'',
     ''            uint80 answeredInRound'',
     ''        ) = priceFeed.latestRoundData();'',
     ''        return price;'',
     ''    }'',
     '''']\<close>

definition analyticsFeatures :: string where
  \<open>analyticsFeatures = lines
    ['''',
     ''    // Analytics tracking'',
     ''    struct Analytics {'',
     ''        uint256 totalTransactions;'',
     ''        uint256 totalVolume;'',
     ''        uint256 lastActivityTime;'',
     ''        mapping(uint256 => uint256) dailyVolume; // timestamp => volume'',
     ''        mapping(address => uint256) userVolume; // user => volume'',
     ''    }'',
     ''    Analytics public analytics;'',
     ''    '',
     ''    // Transaction history'',
     ''    struct Transaction {'',
     ''        address from;'',
     ''        address to;'',
     ''        uint256 amount;'',
     ''        uint256 timestamp;'',
     ''        bytes32 transactionType;'',
     ''        bool success;'',
     ''    }'',
     ''    Transaction[] public transactionHistory;'',
     ''    mapping(address => uint256[]) public userTransactions; // user => transaction indices'',
     ''    '',
     ''    // Analytics events'',
     ''    event VolumeUpdated(uint256 newTotalVolume, uint256 dailyVolume);'',
     ''    event TransactionRecorded(uint256 indexed index, address from, address to, uint256 amount);'',
     '''']\<close>

definition analyticsFunctions :: string where
  \<open>analyticsFunctions = lines
    ['''',
     ''    function getAnalytics() public view returns ('',
     ''        uint256 totalTx,'',
     ''        uint256 totalVol,'',
     ''        uint256 lastActivity,'',
     ''        uint256 todayVol'',
     ''    ) {'',
     ''        uint256 today = block.timestamp - (block.timestamp % 1 days);'',
     ''        return ('',
     ''            analytics.totalTransactions,'',
     ''            analytics.totalVolume,'',
     ''            analytics.lastActivityTime,'',
     ''            analytics.dailyVolume[today]'',
     ''        );'',
     ''    }'',
     ''    '',
     ''    function getUserAnalytics(address user) public view returns ('',
     ''        uint256 userVol,'',
     ''        uint256[] memory txIndices'',
     ''    ) {'',
     ''        return ('',
     ''            analytics.userVolume[user],'',
     ''            userTransactions[user]'',
     ''        );'',
     ''    }'',
     ''    '',
     ''    function getTransaction(uint256 index) public view returns (Transaction memory) {'',
     ''        require(index < transactionHistory.length, "Invalid index");'',
     ''        return transactionHistory[index];'',
     ''    }'',
     ''    '',
     ''    function getUserTransactionCount(address user) public view returns (uint256) {'',
     ''        return userTransactions[user].length;'',
     ''    }'',
     ''    '',
     ''    function _recordTransaction('',
     ''        address from,'',
     ''        address to,'',
     ''        uint256 amount,'',
     ''        bytes32 txType,'',
     ''        bool success'',
     ''    ) internal {'',
     ''        // Update analytics'',
     ''        analytics.totalTransactions++;'',
     ''        analytics.totalVolume += amount;'',
     ''        analytics.lastActivityTime = block.timestamp;'',
     ''        '',
     ''        uint256 today = block.timestamp - (block.timestamp % 1 days);'',
     ''        analytics.dailyVolume[today] += amount;'',
     ''        analytics.userVolume[from] += amount;'',
     ''        '',
     ''        // Record transaction'',
     ''        uint256 index = transactionHistory.length;'',
     ''        transactionHistory.push(Transaction({'',
     ''            from: from,'',
     ''            to: to,'',
     ''            amount: amount,'',
     ''            timestamp: block.timestamp,'',
     ''            transactionType: txType,'',
     ''            success: success'',
     ''        }));'',
     ''        '',
     ''        // Update user transaction indices'',
     ''        userTransactions[from].push(index);'',
     ''        if (from != to) {'',
     ''            userTransactions[to].push(index);'',
     ''        }'',
     ''        '',
     ''        emit VolumeUpdated(analytics.totalVolume, analytics.dailyVolume[today]);'',
     ''        emit TransactionRecorded(index, from, to, amount);'',
     ''    }'',
     ''    '',
     ''    // Override transfer function to record analytics'',
     ''    function transfer(address to, uint256 amount) public virtual override returns (bool) {'',
     ''        bool success = super.transfer(to, amount);'',
     ''        if (success) {'',
     ''            _recordTransaction(msg.sender, to, amount, keccak256("TRANSFER"), true);'',
     ''        }'',
     ''        return success;'',
     ''    }'',
     ''    '',
     ''    // Override transferFrom function to record analytics'',
     ''    function transferFrom(address from, address to, uint256 amount) public virtual override returns (bool) {'',
     ''        bool success = super.transferFrom(from, to, amount);'',
     ''        if (success) {'',
     ''            _recordTransaction(from, to, amount, keccak256("TRANSFER_FROM"), true);'',
     ''        }'',
     ''        return success;'',
     ''    }'',
     '''']\<close>

definition baseTemplatePart1 :: string where
  \<open>baseTemplatePart1 = lines
    [''// SPDX-License-Identifier: MIT'',
     ''pragma solidity ^0.8.20;'',
     '''',
     ''import "@openzeppelin/contracts/token/ERC20/ERC20.sol";'',
     ''import "@openzeppelin/contracts/access/AccessControl.sol";'',
     ''import "@openzeppelin/contracts/security/ReentrancyGuard.sol";'',
     ''import "@openzeppelin/contracts/security/Pausable.sol";'',
     '''']\<close>

definition baseTemplatePart2 :: string where
  \<open>baseTemplatePart2 = lines
    ['''',
     ''import "@chainlink/contracts/src/v0.8/interfaces/AggregatorV3Interface.sol";'',
     ''import "@chainlink/contracts/src/v0.8/ChainlinkClient.sol";'',
     '''',
     ''/**'',
     '' * @title '']\<close>

definition baseTemplatePart3 :: string where
  \<open>baseTemplatePart3 = '' for ''\<close>

definition baseTemplatePart4 :: string where
  \<open>baseTemplatePart4 = lines
    ['''',
     '' * @dev Implementation with '']\<close>

definition baseTemplatePart5 :: string where
  \<open>baseTemplatePart5 = lines
    ['' features, Oracle integration, and Analytics'',
     '' */'',
     ''contract '']\<close>

definition baseTemplatePart6 :: string where
  \<open>baseTemplatePart6 = ''_''\<close>

definition baseTemplatePart7 :: string where
  \<open>baseTemplatePart7 = ''_''\<close>

definition baseTemplatePart8 :: string where
  \<open>baseTemplatePart8 = lines
    ['' is ERC20, AccessControl, ReentrancyGuard, Pausable, ChainlinkClient {'',
     ''    bytes32 public constant ADMIN_ROLE = keccak256("ADMIN_ROLE");'',
     ''    bytes32 public constant MINTER_ROLE = keccak256("MINTER_ROLE");'',
     ''    '']\<close>

definition baseTemplatePart9 :: string where
  \<open>baseTemplatePart9 = lines
    ['''',
     '''',
     ''    // Base contract features'',
     ''    uint256 public constant TRANSFER_COOLDOWN = 1 hours;'',
     ''    mapping(address => uint256) public lastTransferTime;'',
     ''    '',
     ''    // Contract type specific features'',
     ''    '']\<close>

definition baseTemplatePart10 :: string where
  \<open>baseTemplatePart10 = lines
    ['''',
     ''    '',
     ''    // Entity type specific features'',
     ''    '']\<close>

definition baseTemplatePart11 :: string where
  \<open>baseTemplatePart11 = lines
    ['''',
     ''    '',
     ''    // Transaction type specific features'',
     ''    '']\<close>

definition baseTemplatePart12 :: string where
  \<open>baseTemplatePart12 = lines
    ['''',
     ''    '',
     ''    // Oracle Integration'',
     ''    '']\<close>

definition baseTemplatePart13 :: string where
  \<open>baseTemplatePart13 = lines
    ['''',
     ''    '',
     ''    // Analytics Integration'',
     ''    '']\<close>

definition baseTemplatePart14 :: string where
  \<open>baseTemplatePart14 = lines
    ['''',
     ''    '',
     ''    constructor('',
     ''        string memory name,'',
     ''        string memory symbol,'',
     ''        uint256 initialSupply,'',
     ''        '']\<close>

definition baseTemplatePart15 :: string where
  \<open>baseTemplatePart15 = lines
    ['''',
     ''    ) ERC20(name, symbol) {'',
     ''        _grantRole(DEFAULT_ADMIN_ROLE, msg.sender);'',
     ''        _grantRole(ADMIN_ROLE, msg.sender);'',
     ''        _grantRole(MINTER_ROLE, msg.sender);'',
     ''        _mint(msg.sender, initialSupply);'',
     ''        '',
     ''        // Initialize entity-specific settings'',
     ''        '']\<close>

definition baseTemplatePart16 :: string where
  \<open>baseTemplatePart16 = lines
    ['''',
     ''        '',
     ''        // Initialize transaction-specific settings'',
     ''        '']\<close>

definition baseTemplatePart17 :: string where
  \<open>baseTemplatePart17 = lines
    ['''',
     ''        '',
     ''        // Initialize Oracle'',
     ''        '']\<close>

definition baseTemplatePart18 :: string where
  \<open>baseTemplatePart18 = lines
    ['''',
     ''        '',
     ''        // Initialize Analytics'',
     ''        analytics.totalTransactions = 0;'',
     ''        analytics.totalVolume = 0;'',
     ''        analytics.lastActivityTime = block.timestamp;'',
     ''        '',
     ''        '']\<close>

definition baseTemplatePart19 :: string where
  \<open>baseTemplatePart19 = lines
    ['''',
     ''    }'',
     '''',
     ''    // Entity-specific functions'',
     ''    '']\<close>

definition baseTemplatePart20 :: string where
  \<open>baseTemplatePart20 = lines
    ['''',
     ''    '',
     ''    // Transaction-specific functions'',
     ''    '']\<close>

definition baseTemplatePart21 :: string where
  \<open>baseTemplatePart21 = lines
    ['''',
     ''    '',
     ''    // Oracle Functions'',
     ''    '']\<close>

definition baseTemplatePart22 :: string where
  \<open>baseTemplatePart22 = lines
    ['''',
     ''    '',
     ''    // Analytics Functions'',
     ''    '']\<close>

definition baseTemplatePart23 :: string where
  \<open>baseTemplatePart23 = lines
    ['''',
     ''    '',
     ''    // ... rest of the base contract code ...'',
     '''']\<close>

definition entityInitialization_PRIVATE_LIMITED :: string where
  \<open>entityInitialization_PRIVATE_LIMITED = lines
    ['''',
     ''        maxShareholders = 200; // Default max for private limited'',
     ''        boardMembers[msg.sender] = true;'',
     ''        shareholderClass[msg.sender] = 1; // Promoter class'',
     ''    '']\<close>

definition entityInitialization_PUBLIC_LIMITED :: string where
  \<open>entityInitialization_PUBLIC_LIMITED = lines
    ['''',
     ''        marketCap = 0;'',
     ''        publicFloatPercentage = 0;'',
     ''    '']\<close>

definition entityInitialization_PARTNERSHIP :: string where
  \<open>entityInitialization_PARTNERSHIP = lines
    ['''',
     ''        Partner memory newPartner = Partner({'',
     ''            profitShare: 100,'',
     ''            capitalContribution: 0,'',
     ''            isManaging: true'',
     ''        });'',
     ''        partners[msg.sender] = newPartner;'',
     ''        totalPartners = 1;'',
     ''    '']\<close>

definition entityInitialization_LLP :: string where
  \<open>entityInitialization_LLP = lines
    ['''',
     ''        LLPMember memory newMember = LLPMember({'',
     ''            liability: 0,'',
     ''            contribution: 0,'',
     ''            isDesignatedPartner: true'',
     ''        });'',
     ''        members[msg.sender] = newMember;'',
     ''        totalLiability = 0;'',
     ''    '']\<close>

definition transactionInitialization_B2B :: string where
  \<open>transactionInitialization_B2B = lines
    ['''',
     ''        minBusinessTransaction = 1000;'',
     ''        BusinessVerification memory bv = BusinessVerification({'',
     ''            isVerified: true,'',
     ''            creditLimit: 1000000,'',
     ''            tradingVolume: 0'',
     ''        });'',
     ''        verifiedBusinesses[msg.sender] = bv;'',
     ''    '']\<close>

definition transactionInitialization_B2C :: string where
  \<open>transactionInitialization_B2C = lines
    ['''',
     ''        maxConsumerPurchase = 10000;'',
     ''    '']\<close>

definition transactionInitialization_P2P :: string where
  \<open>transactionInitialization_P2P = lines
    ['''',
     ''        p2pTransactionLimit = 5000;'',
     ''        PeerProfile memory pp = PeerProfile({'',
     ''            trustScore: 100,'',
     ''            transactionCount: 0,'',
     ''            isVerified: true'',
     ''        });'',
     ''        peerProfiles[msg.sender] = pp;'',
     ''    '']\<close>

definition entityFunctions_PRIVATE_LIMITED :: string where
  \<open>entityFunctions_PRIVATE_LIMITED = lines
    ['''',
     ''        function addBoardMember(address member) external onlyRole(ADMIN_ROLE) {'',
     ''            require(!boardMembers[member], "Already a board member");'',
     ''            boardMembers[member] = true;'',
     ''            emit BoardMemberAdded(member);'',
     ''        }'',
     ''        '',
     ''        function updateShareholderClass(address holder, uint256 class) external onlyRole(ADMIN_ROLE) {'',
     ''            require(class > 0 && class <= 3, "Invalid class");'',
     ''            shareholderClass[holder] = class;'',
     ''            emit ShareholderClassUpdated(holder, class);'',
     ''        }'',
     ''    '']\<close>

definition entityFunctions_PUBLIC_LIMITED :: string where
  \<open>entityFunctions_PUBLIC_LIMITED = lines
    ['''',
     ''        function updateMarketCap(uint256 newMarketCap) external onlyRole(ADMIN_ROLE) {'',
     ''            marketCap = newMarketCap;'',
     ''            emit MarketCapUpdated(newMarketCap);'',
     ''        }'',
     ''        '',
     ''        function addInstitutionalInvestor(address investor) external onlyRole(ADMIN_ROLE) {'',
     ''            require(!institutionalInvestors[investor], "Already registered");'',
     ''            institutionalInvestors[investor] = true;'',
     ''            emit InstitutionalInvestorAdded(investor);'',
     ''        }'',
     ''    '']\<close>

definition entityFunctions_PARTNERSHIP :: string where
  \<open>entityFunctions_PARTNERSHIP = lines
    ['''',
     ''        function addPartner(address partner, uint256 profitShare, bool isManaging) external onlyRole(ADMIN_ROLE) {'',
     ''            require(partners[partner].profitShare == 0, "Partner exists");'',
     ''            partners[partner] = Partner({'',
     ''                profitShare: profitShare,'',
     ''                capitalContribution: 0,'',
     ''                isManaging: isManaging'',
     ''            });'',
     ''            totalPartners++;'',
     ''            emit PartnerAdded(partner, profitShare);'',
     ''        }'',
     ''        '',
     ''        function contributeCapital() external payable {'',
     ''            require(partners[msg.sender].profitShare > 0, "Not a partner");'',
     ''            partners[msg.sender].capitalContribution += msg.value;'',
     ''            emit CapitalContributed(msg.sender, msg.value);'',
     ''        }'',
     ''    '']\<close>

definition entityFunctions_LLP :: string where
  \<open>entityFunctions_LLP = lines
    ['''',
     ''        function addMember(address member, bool isDesignated) external onlyRole(ADMIN_ROLE) {'',
     ''            require(members[member].contribution == 0, "Member exists");'',
     ''            members[member] = LLPMember({'',
     ''                liability: 0,'',
     ''                contribution: 0,'',
     ''                isDesignatedPartner: isDesignated'',
     ''            });'',
     ''            emit MemberAdded(member, isDesignated);'',
     ''        }'',
     ''        '',
     ''        function updateLiability(address member, uint256 newLiability) external onlyRole(ADMIN_ROLE) {'',
     ''            require(members[member].contribution > 0, "Not a member");'',
     ''            members[member].liability = newLiability;'',
     ''            totalLiability = totalLiability + newLiability - members[member].liability;'',
     ''            emit LiabilityUpdated(member, newLiability);'',
     ''        }'',
     ''    '']\<close>

definition transactionFunctions_B2B :: string where
  \<open>transactionFunctions_B2B = lines
    ['''',
     ''        function verifyBusiness(address business, uint256 creditLimit) external onlyRole(ADMIN_ROLE) {'',
     ''            verifiedBusinesses[business] = BusinessVerification({'',
     ''                isVerified: true,'',
     ''                creditLimit: creditLimit,'',
     ''                tradingVolume: 0'',
     ''            });'',
     ''            emit BusinessVerified(business);'',
     ''        }'',
     ''        '',
     ''        function bulkTransfer(address[] calldata recipients, uint256[] calldata amounts) '',
     ''            external '',
     ''            whenNotPaused '',
     ''            nonReentrant '',
     ''        {'',
     ''            require(recipients.length == amounts.length, "Length mismatch");'',
     ''            require(verifiedBusinesses[msg.sender].isVerified, "Not verified");'',
     ''            '',
     ''            uint256 totalAmount = 0;'',
     ''            for(uint256 i = 0; i < amounts.length; i++) {'',
     ''                totalAmount += amounts[i];'',
     ''            }'',
     ''            '',
     ''            require(totalAmount >= minBusinessTransaction, "Below min transaction");'',
     ''            require(totalAmount <= verifiedBusinesses[msg.sender].creditLimit, "Exceeds credit limit");'',
     ''            '',
     ''            for(uint256 i = 0; i < recipients.length; i++) {'',
     ''                _transfer(msg.sender, recipients[i], amounts[i]);'',
     ''            }'',
     ''            '',
     ''            verifiedBusinesses[msg.sender].tradingVolume += totalAmount;'',
     ''            emit BulkTransferExecuted(recipients, amounts);'',
     ''        }'',
     ''    '']\<close>

definition transactionFunctions_B2C :: string where
  \<open>transactionFunctions_B2C = lines
    ['''',
     ''        function requestRefund(uint256 purchaseId) external whenNotPaused {'',
     ''            ConsumerProtection storage protection = consumerProtections[msg.sender];'',
     ''            require(protection.purchaseHistory[purchaseId], "No purchase found");'',
     ''            require(block.timestamp <= protection.refundWindow, "Refund window expired");'',
     ''            require(!protection.hasDispute, "Existing dispute");'',
     ''            '',
     ''            protection.hasDispute = true;'',
     ''            emit ConsumerRefundRequested(msg.sender, purchaseId);'',
     ''        }'',
     ''        '',
     ''        function resolveDispute(address consumer, uint256 purchaseId, bool infavorOfConsumer) '',
     ''            external '',
     ''            onlyRole(ADMIN_ROLE) '',
     ''        {'',
     ''            ConsumerProtection storage protection = consumerProtections[consumer];'',
     ''            require(protection.hasDispute, "No active dispute");'',
     ''            '',
     ''            protection.hasDispute = false;'',
     ''            emit DisputeResolved(consumer, infavorOfConsumer);'',
     ''        }'',
     ''    '']\<close>

definition transactionFunctions_P2P :: string where
  \<open>transactionFunctions_P2P = lines
    ['''',
     ''        function updateTrustScore(address peer, uint256 newScore) external onlyRole(ADMIN_ROLE) {'',
     ''            require(newScore <= 100, "Invalid score");'',
     ''            peerProfiles[peer].trustScore = newScore;'',
     ''            emit TrustScoreUpdated(peer, newScore);'',
     ''        }'',
     ''        '',
     ''        function p2pTransfer(address to, uint256 amount) '',
     ''            external '',
     ''            whenNotPaused '',
     ''            nonReentrant '',
     ''        {'',
     ''            require(peerProfiles[msg.sender].isVerified, "Sender not verified");'',
     ''            require(amount <= p2pTransactionLimit, "Exceeds P2P limit");'',
     ''            '',
     ''            _transfer(msg.sender, to, amount);'',
     ''            '',
     ''            peerProfiles[msg.sender].transactionCount++;'',
     ''            emit P2PTransferCompleted(msg.sender, to, amount);'',
     ''        }'',
     ''    '']\<close>

definition contractTemplates :: "string \<Rightarrow> string option" where
  "contractTemplates =
     map_of
       [(''Equity Tokenization'', contractTemplates_EQUITY),
        (''Revenue Sharing'', contractTemplates_REVENUE),
        (''Supply Chain'', contractTemplates_SUPPLY_CHAIN),
        (''White Label'', contractTemplates_WHITE_LABEL),
        (''Vesting Agreements'', contractTemplates_VESTING),
        (''Governance Token'', contractTemplates_GOVERNANCE),
        (''Staking Contract'', contractTemplates_STAKING),
        (''Liquidity Pool'', contractTemplates_LIQUIDITY)]"

definition entityFeatures :: "string \<Rightarrow> string option" where
  "entityFeatures =
     map_of
       [(''PRIVATE LIMITED COMPANY'', entityFeatures_PRIVATE_LIMITED),
        (''PUBLIC LIMITED COMPANY'', entityFeatures_PUBLIC_LIMITED),
        (''PARTNERSHIP'', entityFeatures_PARTNERSHIP),
        (''LLP'', entityFeatures_LLP)]"

definition transactionFeatures :: "string \<Rightarrow> string option" where
  "transactionFeatures =
     map_of
       [(''B2B'', transactionFeatures_B2B),
        (''B2C'', transactionFeatures_B2C),
        (''P2P'', transactionFeatures_P2P)]"

definition getEntityInitialization :: "string \<Rightarrow> string option" where
  "getEntityInitialization =
     map_of
       [(''PRIVATE LIMITED COMPANY'', entityInitialization_PRIVATE_LIMITED),
        (''PUBLIC LIMITED COMPANY'', entityInitialization_PUBLIC_LIMITED),
        (''PARTNERSHIP'', entityInitialization_PARTNERSHIP),
        (''LLP'', entityInitialization_LLP)]"

definition getTransactionInitialization :: "string \<Rightarrow> string option" where
  "getTransactionInitialization =
     map_of
       [(''B2B'', transactionInitialization_B2B),
        (''B2C'', transactionInitialization_B2C),
        (''P2P'', transactionInitialization_P2P)]"

definition getEntityFunctions :: "string \<Rightarrow> string option" where
  "getEntityFunctions =
     map_of
       [(''PRIVATE LIMITED COMPANY'', entityFunctions_PRIVATE_LIMITED),
        (''PUBLIC LIMITED COMPANY'', entityFunctions_PUBLIC_LIMITED),
        (''PARTNERSHIP'', entityFunctions_PARTNERSHIP),
        (''LLP'', entityFunctions_LLP)]"

definition getTransactionFunctions :: "string \<Rightarrow> string option" where
  "getTransactionFunctions =
     map_of
       [(''B2B'', transactionFunctions_B2B),
        (''B2C'', transactionFunctions_B2C),
        (''P2P'', transactionFunctions_P2P)]"

text \<open>
  A table lookup that misses is \<^verbatim>\<open>undefined\<close>: \<^verbatim>\<open>x || ''\<close> turns it into the empty
  string, and a bare interpolation prints it as the word.
\<close>

definition orEmpty :: "string option \<Rightarrow> string" where
  "orEmpty v = (case v of None \<Rightarrow> [] | Some s \<Rightarrow> s)"

definition printed :: "string option \<Rightarrow> string" where
  "printed v = (case v of None \<Rightarrow> ''undefined'' | Some s \<Rightarrow> s)"

definition getContractTemplate :: "string \<Rightarrow> string \<Rightarrow> string \<Rightarrow> customizations \<Rightarrow> string" where
  \<open>getContractTemplate contractType entityType transactionType c =
     baseTemplatePart1 @
     (if contractType = ''Supply Chain''
      then ''import "@openzeppelin/contracts/utils/Counters.sol";'' else []) @
     baseTemplatePart2 @ contractType @ baseTemplatePart3 @ entityType @
     baseTemplatePart4 @ transactionType @ baseTemplatePart5 @ contractType @
     baseTemplatePart6 @ entityType @ baseTemplatePart7 @ transactionType @
     baseTemplatePart8 @
     (if contractType = ''Supply Chain''
      then ''using Counters for Counters.Counter;'' else []) @
     baseTemplatePart9 @ orEmpty (contractTemplates contractType) @
     baseTemplatePart10 @ orEmpty (entityFeatures entityType) @
     baseTemplatePart11 @ orEmpty (transactionFeatures transactionType) @
     baseTemplatePart12 @ oracleFeatures @
     baseTemplatePart13 @ analyticsFeatures @
     baseTemplatePart14 @ propOr c ''extraParams'' [] @
     baseTemplatePart15 @ printed (getEntityInitialization entityType) @
     baseTemplatePart16 @ printed (getTransactionInitialization transactionType) @
     baseTemplatePart17 @ oracleInitialization @
     baseTemplatePart18 @ propOr c ''constructorLogic'' [] @
     baseTemplatePart19 @ printed (getEntityFunctions entityType) @
     baseTemplatePart20 @ printed (getTransactionFunctions transactionType) @
     baseTemplatePart21 @ oracleFunctions @
     baseTemplatePart22 @ analyticsFunctions @
     baseTemplatePart23\<close>

section \<open>The three prompts of the generation endpoint (server)\<close>

definition analysisPrompt :: "string \<Rightarrow> string \<Rightarrow> string \<Rightarrow> string" where
  "analysisPrompt contractType entityType transactionType =
     ''Analyze the requirements for a '' @ contractType @ '' smart contract for a '' @
     entityType @ '' doing '' @ transactionType @
     '' transactions. Focus on key requirements and constraints only.''"

definition securityPrompt :: "string \<Rightarrow> string \<Rightarrow> string \<Rightarrow> string" where
  "securityPrompt contractType entityType transactionType =
     ''Analyze critical security aspects for '' @ contractType @ '' ('' @ entityType @
     '', '' @ transactionType @
     ''). List all potential vulnerabilities and provide detailed recommendations.''"

definition codePromptPart1 :: string where
  \<open>codePromptPart1 = ''Generate a complete, production-ready Solidity smart contract for ''\<close>

definition codePromptPart2 :: string where
  \<open>codePromptPart2 = '' (''\<close>

definition codePromptPart3 :: string where
  \<open>codePromptPart3 = '', ''\<close>

definition codePromptPart4 :: string where
  \<open>codePromptPart4 = lines
    [''). '',
     ''IMPORTANT: You must provide the COMPLETE code implementation. DO NOT use ellipsis (...) or comments like "rest remains the same". Every function, event, and feature must be fully implemented.'',
     '''',
     ''Requirements:'',
     ''1. SPDX License and pragma statement'',
     ''2. All necessary imports from OpenZeppelin and Chainlink'',
     ''3. Complete contract implementation including:'',
     ''   - All state variables and their visibility'',
     ''   - All events with proper indexing'',
     ''   - All modifiers with full implementation'',
     ''   - Constructor with all necessary initialization'',
     ''   - All public and external functions fully implemented'',
     ''   - All internal and private helper functions'',
     ''4. Proper error handling with custom errors'',
     ''5. Full NatSpec documentation for all functions'',
     ''6. Gas optimizations:'',
     ''   - Use unchecked blocks for counters'',
     ''   - Use custom errors instead of require statements'',
     ''   - Use immutable for constants'',
     ''   - Optimize storage layout'',
     ''7. Security features:'',
     ''   - Access control for all sensitive functions'',
     ''   - Reentrancy protection'',
     ''   - Integer overflow protection'',
     ''   - Proper event emission'',
     ''8. Features specific to:'',
     ''   - Entity Type: '']\<close>

definition codePromptPart5 :: string where
  \<open>codePromptPart5 = lines
    ['''',
     ''   - Transaction Type: '']\<close>

definition codePromptPart6 :: string where
  \<open>codePromptPart6 = lines
    ['''',
     ''   - Contract Type: '']\<close>

definition codePromptPart7 :: string where
  \<open>codePromptPart7 = lines
    ['''',
     '''',
     ''Base the implementation on this template but provide COMPLETE implementation:'',
     '''']\<close>

definition codePromptPart8 :: string where
  \<open>codePromptPart8 = lines
    ['''',
     '''',
     ''Remember: DO NOT use any placeholders or ellipsis (...). Every part of the code must be completely implemented.'']\<close>

definition codePrompt :: "string \<Rightarrow> string \<Rightarrow> string \<Rightarrow> string \<Rightarrow> string" where
  "codePrompt contractType entityType transactionType template =
     codePromptPart1 @ contractType @ codePromptPart2 @ entityType @ codePromptPart3 @
     transactionType @ codePromptPart4 @ entityType @ codePromptPart5 @ transactionType @
     codePromptPart6 @ contractType @ codePromptPart7 @ template @ codePromptPart8"


section \<open>The analysis helpers of the generation endpoint (server)\<close>

text \<open>\<^verbatim>\<open>s.split('\n')\<close>.\<close>

fun splitLines :: "string \<Rightarrow> string list" where
  "splitLines [] = [[]]"
| "splitLines (c # s) =
     (if c = CHR 0x0A then [] # splitLines s
      else (case splitLines s of
              [] \<Rightarrow> [[c]]
            | l # ls \<Rightarrow> (c # l) # ls))"

text \<open>\<^verbatim>\<open>toLowerCase()\<close> on code units below 256.\<close>

definition lowerChar :: "char \<Rightarrow> char" where
  "lowerChar c =
     (let n = (of_char c :: nat) in
      if (65 \<le> n \<and> n \<le> 90) \<or> (192 \<le> n \<and> n \<le> 222 \<and> n \<noteq> 215)
      then char_of (n + 32) else c)"

definition toLowerCase :: "string \<Rightarrow> string" where
  "toLowerCase s = map lowerChar s"

fun vulnerabilityLines :: "bool \<Rightarrow> string list \<Rightarrow> string list" where
  "vulnerabilityLines inSection [] = []"
| "vulnerabilityLines inSection (line # rest) =
     (if str_includes (toLowerCase line) ''vulnerabilities:'' then vulnerabilityLines True rest
      else
        (if inSection \<and> trim line \<noteq> [] \<and>
            \<not> str_includes (toLowerCase line) ''recommendations:''
         then [trim line] else []) @
        (if inSection \<and> str_includes (toLowerCase line) ''recommendations:'' then []
         else vulnerabilityLines inSection rest))"

definition extractVulnerabilities :: "string \<Rightarrow> string list" where
  "extractVulnerabilities securityAnalysis = vulnerabilityLines False (splitLines securityAnalysis)"

fun recommendationLines :: "bool \<Rightarrow> string list \<Rightarrow> string list" where
  "recommendationLines inSection [] = []"
| "recommendationLines inSection (line # rest) =
     (if str_includes (toLowerCase line) ''recommendations:'' then recommendationLines True rest
      else
        (if inSection \<and> trim line \<noteq> [] then [trim line] else []) @
        recommendationLines inSection rest)"

definition extractRecommendations :: "string \<Rightarrow> string list" where
  "extractRecommendations securityAnalysis = recommendationLines False (splitLines securityAnalysis)"

record gasAnalysis =
  functionName :: string
  estimatedGas :: nat
  gasRecommendations :: "string list"

text \<open>
  \<^verbatim>\<open>/function\s+(\w+)\s*\([^)]*\)/g\<close> at the start of \<open>s\<close>: the captured name and the
  length of the match. Every quantifier is followed by a character it cannot match, so
  the greedy choice is the only one.
\<close>

definition isWordChar :: "char \<Rightarrow> bool" where
  "isWordChar c =
     (let n = (of_char c :: nat) in
      (48 \<le> n \<and> n \<le> 57) \<or> (65 \<le> n \<and> n \<le> 90) \<or> n = 95 \<or> (97 \<le> n \<and> n \<le> 122))"

definition functionAt :: "string \<Rightarrow> (string \<times> nat) option" where
  "functionAt s =
     (if startsWith s ''function'' then
        (let r = drop 8 s;
             ws = takeWhile isSpace r;
             name = takeWhile isWordChar (dropWhile isSpace r);
             r2 = dropWhile isWordChar (dropWhile isSpace r);
             ws2 = takeWhile isSpace r2
         in if ws = [] \<or> name = [] then None
            else
              (case dropWhile isSpace r2 of
                 [] \<Rightarrow> None
               | c # r3 \<Rightarrow>
                   (if c = CHR ''('' then
                      (case dropWhile (\<lambda>x. x \<noteq> CHR '')'') r3 of
                         [] \<Rightarrow> None
                       | d # r4 \<Rightarrow>
                           Some (name,
                                 8 + length ws + length name + length ws2 + 1 +
                                 length (takeWhile (\<lambda>x. x \<noteq> CHR '')'') r3) + 1))
                    else None)))
      else None)"

text \<open>
  \<^verbatim>\<open>matchAll\<close>: the matches from left to right, each search resuming after the
  previous match; \<open>skip\<close> counts the characters of that match still to pass.
\<close>

fun functionNames :: "nat \<Rightarrow> string \<Rightarrow> string list" where
  "functionNames skip [] = []"
| "functionNames skip (x # s) =
     (if 0 < skip then functionNames (skip - 1) s
      else (case functionAt (x # s) of
              None \<Rightarrow> functionNames 0 s
            | Some (name, len) \<Rightarrow> name # functionNames (len - 1) s))"

definition analyzeGasUsage :: "string \<Rightarrow> gasAnalysis list" where
  "analyzeGasUsage contractCode =
     map (\<lambda>func.
           \<lparr>functionName = func,
            estimatedGas = 50000,
            gasRecommendations =
              (if str_includes contractCode ''for (uint ''
               then [''Consider using unchecked blocks for loop counters to save gas''] else []) @
              (if str_includes contractCode ''require(''
               then [''Use custom errors instead of require statements to save gas''] else []) @
              (if str_includes contractCode ''string memory''
               then [''Consider using bytes instead of string to save gas''] else [])\<rparr>)
         (functionNames 0 contractCode)"

section \<open>The result cache (server)\<close>

datatype status = Valid | Outdated | Invalid

record cacheEntry =
  ce_code :: string
  ce_timestamp :: int
  ce_analysis :: string
  ce_vulnerabilities :: "string list"
  ce_recommendations :: "string list"
  ce_gasAnalysis :: "gasAnalysis list"
  ce_base :: string
  ce_features :: "string list"
  ce_customizations :: "(string \<times> jsval) list"
  ce_compiler :: string
  ce_framework :: string
  ce_dependencies :: "(string \<times> string) list"
  ce_lastChecked :: int
  ce_status :: status
  ce_issues :: "string list"

type_synonym contractCache = "string \<Rightarrow> cacheEntry option"

definition CACHE_DURATION :: int where
  "CACHE_DURATION = 7 * 24 * 60 * 60 * 1000"

text \<open>
  \<^verbatim>\<open>process.env.SOLIDITY_VERSION || '0.8.20'\<close>: the variable is absent (\<open>None\<close>) or a
  string, and the empty string is falsy.
\<close>

definition solidityVersion :: "string option \<Rightarrow> string" where
  "solidityVersion v = (case v of None \<Rightarrow> ''0.8.20'' | Some s \<Rightarrow> (if s = [] then ''0.8.20'' else s))"

definition generateCacheKey :: "string option \<Rightarrow> string \<Rightarrow> string \<Rightarrow> string \<Rightarrow> string" where
  "generateCacheKey v entityType transactionType contractType =
     entityType @ ''_'' @ transactionType @ ''_'' @ contractType @ ''_'' @ solidityVersion v"

text \<open>The \<^verbatim>\<open><\<close> of JavaScript on strings: lexicographic on code units.\<close>

fun jsLess :: "string \<Rightarrow> string \<Rightarrow> bool" where
  "jsLess [] [] = False"
| "jsLess [] (y # ys) = True"
| "jsLess (x # xs) [] = False"
| "jsLess (x # xs) (y # ys) =
     ((of_char x :: nat) < of_char y \<or> (x = y \<and> jsLess xs ys))"

text \<open>\<^verbatim>\<open>version.replace('^', '')\<close>: the first caret is deleted.\<close>

fun removeCaret :: "string \<Rightarrow> string" where
  "removeCaret [] = []"
| "removeCaret (c # s) = (if c = CHR ''^'' then s else c # removeCaret s)"

text \<open>
  \<open>registry pkg\<close> is the version the package registry reports as latest for \<open>pkg\<close>, or
  \<open>None\<close> when the lookup fails (the failure is caught and the package is skipped).
\<close>

fun checkDependencyVersions :: "(string \<Rightarrow> string option) \<Rightarrow> (string \<times> string) list \<Rightarrow> string list" where
  "checkDependencyVersions registry [] = []"
| "checkDependencyVersions registry ((pkg, version) # deps) =
     (case registry pkg of
        None \<Rightarrow> []
      | Some latestVersion \<Rightarrow>
          (if jsLess (removeCaret version) latestVersion
           then [pkg @ '': '' @ version @ '' -> '' @ latestVersion] else [])) @
     checkDependencyVersions registry deps"

text \<open>
  \<open>getFromCache\<close> returns the entry, if any, and the cache, whose entry the function
  marks as outdated in place.
\<close>

definition getFromCache ::
  "(string \<Rightarrow> string option) \<Rightarrow> int \<Rightarrow> contractCache \<Rightarrow> string \<Rightarrow> cacheEntry option \<times> contractCache" where
  "getFromCache registry now cache cacheKey =
     (case cache cacheKey of
        None \<Rightarrow> (None, cache)
      | Some entry \<Rightarrow>
          (if now - ce_lastChecked entry > CACHE_DURATION
           then (None, cache(cacheKey \<mapsto> entry\<lparr>ce_status := Outdated\<rparr>))
           else
             (let outdatedDeps = checkDependencyVersions registry (ce_dependencies entry) in
              if outdatedDeps \<noteq> []
              then (None, cache(cacheKey \<mapsto> entry\<lparr>ce_status := Outdated, ce_issues := outdatedDeps\<rparr>))
              else (Some entry, cache))))"

section \<open>The generation endpoint (server)\<close>

record contractRequest =
  rq_entityType :: string
  rq_transactionType :: string
  rq_contractType :: string
  rq_customizations :: customizations

text \<open>
  The environment of one handling: the compiler-version variable, which API keys are
  set, and the provider servers, one per persona task since each task sends its own
  requests.
\<close>

record environment =
  env_solidityVersion :: "string option"
  env_keys :: "provider \<Rightarrow> bool"
  env_servers :: "persona \<Rightarrow> provider \<Rightarrow> nat \<Rightarrow> reply"

text \<open>The readings of the clock, in milliseconds, in the order the handler takes them.\<close>

record clock =
  startTime :: int
  checkTime :: int
  hitTime :: int
  storeDate :: int
  storeTime :: int
  endTime :: int

record responseData =
  rd_analysis :: string
  rd_code :: string
  rd_vulnerabilities :: "string list"
  rd_recommendations :: "string list"
  rd_gasAnalysis :: "gasAnalysis list"

text \<open>
  A response: \<open>Success data processingTime fromCache\<close>, where \<open>fromCache\<close> is \<open>None\<close> when
  the field is absent, or \<open>Failure status error processingTime\<close>. \<open>Success\<close> is sent with
  status 200 and \<^verbatim>\<open>success: true\<close>, \<open>Failure\<close> with \<^verbatim>\<open>success: false\<close>.
\<close>

datatype response =
  Success responseData int "bool option"
| Failure nat string "int option"

text \<open>The check of the generated code in the code generation task.\<close>

definition codeAccepted :: "string \<Rightarrow> bool" where
  "codeAccepted generatedCode =
     (\<not> (\<not> str_includes generatedCode ''SPDX-License-Identifier'' \<or>
         \<not> str_includes generatedCode ''pragma solidity'' \<or>
         \<not> str_includes generatedCode ''contract'' \<or>
         str_includes generatedCode ''...'' \<or>
         str_includes generatedCode ''rest of'' \<or>
         str_includes generatedCode ''remains the same''))"

definition codeTask :: "(string + string) \<Rightarrow> (string + string)" where
  "codeTask r =
     (case r of
        Inl e \<Rightarrow> Inl e
      | Inr generatedCode \<Rightarrow>
          (if codeAccepted generatedCode then Inr generatedCode
           else Inl ''Generated code is incomplete or invalid''))"

definition statusCode :: "string \<Rightarrow> nat" where
  "statusCode errorMessage =
     (if str_includes errorMessage ''OPENROUTER_API_KEY'' then 401
      else if str_includes errorMessage ''rate limit'' then 429
      else 500)"

definition validRequest :: "contractRequest \<Rightarrow> bool" where
  "validRequest rq =
     (\<not> (rq_entityType rq \<notin> set entityTypes \<or>
         rq_transactionType rq \<notin> set transactionTypes \<or>
         rq_contractType rq \<notin> set contractTypes))"

definition newEntry :: "environment \<Rightarrow> clock \<Rightarrow> contractRequest \<Rightarrow> string \<Rightarrow> string \<Rightarrow> string \<Rightarrow> cacheEntry" where
  "newEntry env clk rq analysis code securityAnalysis =
     \<lparr>ce_code = code,
      ce_timestamp = storeTime clk,
      ce_analysis = analysis,
      ce_vulnerabilities = extractVulnerabilities securityAnalysis,
      ce_recommendations = extractRecommendations securityAnalysis,
      ce_gasAnalysis = analyzeGasUsage code,
      ce_base = getContractTemplate (rq_contractType rq) (rq_entityType rq)
                  (rq_transactionType rq) (rq_customizations rq),
      ce_features = [],
      ce_customizations = (case rq_customizations rq of None \<Rightarrow> [] | Some es \<Rightarrow> es),
      ce_compiler = solidityVersion (env_solidityVersion env),
      ce_framework = ''OpenZeppelin 5.0.0'',
      ce_dependencies =
        [(''@openzeppelin/contracts-upgradeable'', ''^5.0.0''),
         (''@openzeppelin/contracts'', ''^5.0.0'')],
      ce_lastChecked = storeDate clk,
      ce_status = Valid,
      ce_issues = []\<rparr>"

text \<open>
  The handler of \<^verbatim>\<open>POST /api/generate\<close> returns the response, the cache after the
  handling and the provider requests sent. \<open>generateMiss\<close> is the handler from the
  validation of the request on, run when the cache check does not answer. The three tasks
  of \<^verbatim>\<open>Promise.all\<close> all run to their end; their requests are listed task by task, and
  of several rejections the one reported is taken in task order (which of them settles
  first in time is not modelled).
\<close>

definition generateMiss ::
  "environment \<Rightarrow> clock \<Rightarrow> contractCache \<Rightarrow> contractRequest \<Rightarrow>
     response \<times> contractCache \<times> pcall list" where
  "generateMiss env clk cache rq =
     (let entityType = rq_entityType rq;
          transactionType = rq_transactionType rq;
          contractType = rq_contractType rq;
          cacheKey = generateCacheKey (env_solidityVersion env) entityType transactionType contractType
      in
      if \<not> validRequest rq then
        (Failure 400 ''Invalid entity type, transaction type, or contract type'' None, cache, [])
      else
        (case processWithPersona (env_keys env) (env_servers env nanjunda)
                (analysisPrompt contractType entityType transactionType) nanjunda of
           (analysisResult, calls1) \<Rightarrow>
        (case processWithPersona (env_keys env) (env_servers env achyutha)
                (codePrompt contractType entityType transactionType
                   (getContractTemplate contractType entityType transactionType
                      (rq_customizations rq))) achyutha of
           (generated, calls2) \<Rightarrow>
        (case processWithPersona (env_keys env) (env_servers env sandeep)
                (securityPrompt contractType entityType transactionType) sandeep of
           (securityResult, calls3) \<Rightarrow>
             (case (analysisResult, codeTask generated, securityResult) of
                (Inr analysis, Inr code, Inr securityAnalysis) \<Rightarrow>
                  (Success
                     \<lparr>rd_analysis = analysis,
                      rd_code = code,
                      rd_vulnerabilities = extractVulnerabilities securityAnalysis,
                      rd_recommendations = extractRecommendations securityAnalysis,
                      rd_gasAnalysis = analyzeGasUsage code\<rparr>
                     (endTime clk - startTime clk) None,
                   cache(cacheKey \<mapsto> newEntry env clk rq analysis code securityAnalysis),
                   calls1 @ calls2 @ calls3)
              | (Inl e, _, _) \<Rightarrow>
                  (Failure (statusCode e) e (Some (endTime clk - startTime clk)), cache,
                   calls1 @ calls2 @ calls3)
              | (Inr _, Inl e, _) \<Rightarrow>
                  (Failure (statusCode e) e (Some (endTime clk - startTime clk)), cache,
                   calls1 @ calls2 @ calls3)
              | (Inr _, Inr _, Inl e) \<Rightarrow>
                  (Failure (statusCode e) e (Some (endTime clk - startTime clk)), cache,
                   calls1 @ calls2 @ calls3))))))"

definition generate ::
  "environment \<Rightarrow> clock \<Rightarrow> contractCache \<Rightarrow> contractRequest \<Rightarrow>
     response \<times> contractCache \<times> pcall list" where
  "generate env clk cache rq =
     (case cache (generateCacheKey (env_solidityVersion env) (rq_entityType rq)
                    (rq_transactionType rq) (rq_contractType rq)) of
        None \<Rightarrow> generateMiss env clk cache rq
      | Some cachedContract \<Rightarrow>
          (if checkTime clk - ce_timestamp cachedContract < CACHE_DURATION then
             (Success
                \<lparr>rd_analysis = ce_analysis cachedContract,
                 rd_code = ce_code cachedContract,
                 rd_vulnerabilities = ce_vulnerabilities cachedContract,
                 rd_recommendations = ce_recommendations cachedContract,
                 rd_gasAnalysis = ce_gasAnalysis cachedContract\<rparr>
                (hitTime clk - startTime clk) (Some True),
              cache, [])
           else generateMiss env clk cache rq))"

section \<open>The sequential pipeline of the first server (server.ts)\<close>

text \<open>
  That server installs no interceptor: one attempt per persona, and a failure of the
  request or a response without content is thrown. A request is recorded as the persona
  and the content of its user message.
\<close>

datatype requestError = RequestFailed failure | NoContent

fun personaPrompts :: "persona \<Rightarrow> string" where
  "personaPrompts nanjunda =
     ''As Nanjunda, analyze the contract requirements and provide detailed insights: ''"
| "personaPrompts achyutha =
     ''As Achyutha, optimize and generate the smart contract code with best practices: ''"
| "personaPrompts sandeep =
     ''As Sandeep, perform security analysis and ensure compliance: ''"

definition processWithPersonaSeq ::
  "(persona \<Rightarrow> reply) \<Rightarrow> string \<Rightarrow> persona \<Rightarrow> (requestError + string) \<times> (persona \<times> string) list" where
  "processWithPersonaSeq srv prompt p =
     ((case srv p of
         Failed f \<Rightarrow> Inl (RequestFailed f)
       | Reply None \<Rightarrow> Inl NoContent
       | Reply (Some content) \<Rightarrow> Inr content),
      [(p, personaPrompts p @ prompt)])"

text \<open>
  ``Sequential processing through personas'': the three awaited calls of the handler,
  from the base prompt on. The result is the triple of analysis, code and security text.
\<close>

definition sequentialPersonas ::
  "(persona \<Rightarrow> reply) \<Rightarrow> string \<Rightarrow>
     (requestError + string \<times> string \<times> string) \<times> (persona \<times> string) list" where
  "sequentialPersonas srv basePrompt =
     (case processWithPersonaSeq srv basePrompt nanjunda of
        (Inl e, calls1) \<Rightarrow> (Inl e, calls1)
      | (Inr analysis, calls1) \<Rightarrow>
     (case processWithPersonaSeq srv analysis achyutha of
        (Inl e, calls2) \<Rightarrow> (Inl e, calls1 @ calls2)
      | (Inr code, calls2) \<Rightarrow>
     (case processWithPersonaSeq srv code sandeep of
        (Inl e, calls3) \<Rightarrow> (Inl e, calls1 @ calls2 @ calls3)
      | (Inr security, calls3) \<Rightarrow>
          (Inr (analysis, code, security), calls1 @ calls2 @ calls3))))"

section \<open>Notions used in the statements\<close>

text \<open>A failure the interceptor retries: any but the statuses 400, 401, 403 and an error without configuration.\<close>

definition retryable :: "reply \<Rightarrow> bool" where
  "retryable r = (case r of Reply b \<Rightarrow> False | Failed f \<Rightarrow> f \<noteq> NoConfig \<and> \<not> noRetryStatus f)"

text \<open>
  Servers for concrete runs: \<open>answering a b c\<close> gives the same answer to every attempt,
  \<open>a\<close> at Together, \<open>b\<close> at OpenRouter and \<open>c\<close> at AIML; \<open>allKeys\<close> has every API key set.
\<close>

fun answering :: "reply \<Rightarrow> reply \<Rightarrow> reply \<Rightarrow> provider \<Rightarrow> nat \<Rightarrow> reply" where
  "answering a b c Together n = a"
| "answering a b c OpenRouter n = b"
| "answering a b c AIML n = c"

definition allKeys :: "provider \<Rightarrow> bool" where
  "allKeys pr = True"



text \<open>
  The placeholder markers of \<open>validateContractCode\<close>, and a text that contains none of
  them: neither \<^verbatim>\<open>hasEllipsis\<close> nor \<^verbatim>\<open>hasPlaceholderComment\<close> holds of it.
\<close>

definition markers :: "string list" where
  "markers =
     [''...'', ''// TODO'', ''// Implementation'', ''rest of the code'', ''// Add implementation'']"

definition placeholderFree :: "string \<Rightarrow> bool" where
  "placeholderFree s =
     (\<not> str_includes s ''...'' \<and>
      \<not> (str_includes s ''// TODO'' \<or>
         str_includes s ''// Implementation'' \<or>
         str_includes s ''rest of the code'' \<or>
         str_includes s ''// Add implementation''))"


text \<open>
  A scan that looks for all markers in one pass: \<open>markerAt x s\<close> says that a marker
  starts at the head of \<open>x # s\<close>.
\<close>

definition markerAt :: "char \<Rightarrow> string \<Rightarrow> bool" where
  "markerAt x s =
     (if x = CHR ''.'' then startsWith s ''..''
      else if x = CHR ''/'' then
        (if startsWith s ''/ TODO'' then True
         else if startsWith s ''/ Implementation'' then True
         else startsWith s ''/ Add implementation'')
      else if x = CHR ''r'' then startsWith s ''est of the code''
      else False)"

fun hasMarker :: "string \<Rightarrow> bool" where
  "hasMarker [] = False"
| "hasMarker (x # s) = (if markerAt x s then True else hasMarker s)"

text \<open>
  \<open>overlapEnd a m\<close>: \<open>a\<close> ends with a non-empty proper prefix of \<open>m\<close>;
  \<open>overlapStart b m\<close>: \<open>b\<close> starts with a non-empty proper suffix of \<open>m\<close>. An
  occurrence of \<open>m\<close> that straddles the join of \<open>a @ b\<close> needs both.
\<close>

fun overlapEnd :: "string \<Rightarrow> string \<Rightarrow> bool" where
  "overlapEnd [] m = False"
| "overlapEnd (x # a) m =
     (if startsWith m (x # a) then (if x # a = m then overlapEnd a m else True)
      else overlapEnd a m)"

fun suffixStarts :: "string \<Rightarrow> string \<Rightarrow> bool" where
  "suffixStarts b [] = False"
| "suffixStarts b (c # u) = (if startsWith b (c # u) then True else suffixStarts b u)"

definition overlapStart :: "string \<Rightarrow> string \<Rightarrow> bool" where
  "overlapStart b m = (case m of [] \<Rightarrow> False | c # u \<Rightarrow> suffixStarts b u)"

definition endSafe :: "string \<Rightarrow> bool" where
  "endSafe a = list_all (\<lambda>m. \<not> overlapEnd a m) markers"

definition startSafe :: "string \<Rightarrow> bool" where
  "startSafe b = list_all (\<lambda>m. \<not> overlapStart b m) markers"

definition leftSep :: "string \<Rightarrow> bool" where
  "leftSep a = list_all (\<lambda>m. \<not> overlapEnd a m \<and> \<not> str_includes m a) markers"


text \<open>The cache key the endpoint computes for a request, under a compiler-version setting.\<close>

definition requestKey :: "string option \<Rightarrow> contractRequest \<Rightarrow> string" where
  "requestKey v rq =
     generateCacheKey v (rq_entityType rq) (rq_transactionType rq) (rq_contractType rq)"


text \<open>The prompt of each persona task of the endpoint, as a function of the request.\<close>

fun taskPrompt :: "contractRequest \<Rightarrow> persona \<Rightarrow> string" where
  "taskPrompt rq nanjunda =
     analysisPrompt (rq_contractType rq) (rq_entityType rq) (rq_transactionType rq)"
| "taskPrompt rq achyutha =
     codePrompt (rq_contractType rq) (rq_entityType rq) (rq_transactionType rq)
       (getContractTemplate (rq_contractType rq) (rq_entityType rq) (rq_transactionType rq)
          (rq_customizations rq))"
| "taskPrompt rq sandeep =
     securityPrompt (rq_contractType rq) (rq_entityType rq) (rq_transactionType rq)"

text \<open>
  For concrete runs: an environment with every key set, no version setting and the same
  provider servers for every persona task; a handling all of whose clock readings are
  \<open>t\<close>; a server of the first pipeline that answers each persona with a given text; a
  registry that reports the same latest version for every package; a request that passes
  the validation, a provider answer that passes the check of the code task, and the
  beginning of a contract with a placeholder comment.
\<close>

definition envOf :: "(provider \<Rightarrow> nat \<Rightarrow> reply) \<Rightarrow> environment" where
  "envOf srv =
     \<lparr>env_solidityVersion = None, env_keys = allKeys, env_servers = (\<lambda>p. srv)\<rparr>"

definition atTime :: "int \<Rightarrow> clock" where
  "atTime t =
     \<lparr>startTime = t, checkTime = t, hitTime = t, storeDate = t, storeTime = t, endTime = t\<rparr>"

fun replying :: "string \<Rightarrow> string \<Rightarrow> string \<Rightarrow> persona \<Rightarrow> reply" where
  "replying a c s nanjunda = Reply (Some a)"
| "replying a c s achyutha = Reply (Some c)"
| "replying a c s sandeep = Reply (Some s)"

definition latestIs :: "string \<Rightarrow> string \<Rightarrow> string option" where
  "latestIs v pkg = Some v"

definition sampleRequest :: contractRequest where
  "sampleRequest =
     \<lparr>rq_entityType = ''LLP'', rq_transactionType = ''B2B'',
      rq_contractType = ''Equity Tokenization'', rq_customizations = None\<rparr>"

definition sampleCode :: string where
  "sampleCode = ''// SPDX-License-Identifier: MIT pragma solidity ^0.8.20; contract Token { }''"


definition sampleData :: responseData where
  "sampleData =
     \<lparr>rd_analysis = sampleCode, rd_code = sampleCode,
      rd_vulnerabilities = extractVulnerabilities sampleCode,
      rd_recommendations = extractRecommendations sampleCode,
      rd_gasAnalysis = analyzeGasUsage sampleCode\<rparr>"




section \<open>The interceptor: retries and delays\<close>

lemma orDefault_Some_Suc [simp]: "orDefault (Some (Suc k)) d = Suc k"
  by (simp add: orDefault_def)

lemma orDefault_Some_pos: "0 < m \<Longrightarrow> orDefault (Some m) d = m"
  by (simp add: orDefault_def)

lemma freshConfig_simps [simp]:
  "orDefault (retryCount freshConfig) 0 = 0" "orDefault (maxRetries freshConfig) 3 = 3"
  by (simp_all add: freshConfig_def orDefault_def)

lemma axiosSend_Reply: "srv n = Reply body \<Longrightarrow> axiosSend srv n cfg = (Inr body, [])"
  by (subst axiosSend.simps) simp

lemma axiosSend_noRetry:
  "srv n = Failed f \<Longrightarrow> noRetryStatus f \<Longrightarrow> axiosSend srv n cfg = (Inl f, [])"
  by (subst axiosSend.simps) simp

lemma axiosSend_NoConfig:
  "srv n = Failed NoConfig \<Longrightarrow> axiosSend srv n cfg = (Inl NoConfig, [])"
  by (subst axiosSend.simps) simp

lemma axiosSend_exhausted:
  "srv n = Failed f \<Longrightarrow> \<not> orDefault (retryCount cfg) 0 < orDefault (maxRetries cfg) 3 \<Longrightarrow>
   axiosSend srv n cfg = (Inl f, [])"
  by (subst axiosSend.simps) simp

lemma axiosSend_retry:
  "srv n = Failed f \<Longrightarrow> f \<noteq> NoConfig \<Longrightarrow> \<not> noRetryStatus f \<Longrightarrow>
   orDefault (retryCount cfg) 0 < orDefault (maxRetries cfg) 3 \<Longrightarrow>
   axiosSend srv n cfg =
     (fst (axiosSend srv (Suc n)
             \<lparr>retryCount = Some (orDefault (retryCount cfg) 0 + 1),
              maxRetries = Some (orDefault (maxRetries cfg) 3)\<rparr>),
      backoffDelay (orDefault (retryCount cfg) 0 + 1) #
      snd (axiosSend srv (Suc n)
             \<lparr>retryCount = Some (orDefault (retryCount cfg) 0 + 1),
              maxRetries = Some (orDefault (maxRetries cfg) 3)\<rparr>))"
  by (subst axiosSend.simps) (simp split: prod.splits)

text \<open>The delays are the powers of two from the current retry count on, in seconds.\<close>

lemma axiosSend_delays:
  "snd (axiosSend srv n cfg) =
     map backoffDelay
       [orDefault (retryCount cfg) 0 + 1 ..<
        orDefault (retryCount cfg) 0 + 1 + length (snd (axiosSend srv n cfg))]"
proof (induction srv n cfg rule: axiosSend.induct)
  case (1 srv n cfg)
  show ?case
  proof (cases "srv n")
    case (Reply body)
    then show ?thesis by (simp add: axiosSend_Reply)
  next
    case (Failed f)
    consider "f = NoConfig" | "f \<noteq> NoConfig" "noRetryStatus f"
      | "f \<noteq> NoConfig" "\<not> noRetryStatus f"
        "\<not> orDefault (retryCount cfg) 0 < orDefault (maxRetries cfg) 3"
      | "f \<noteq> NoConfig" "\<not> noRetryStatus f"
        "orDefault (retryCount cfg) 0 < orDefault (maxRetries cfg) 3"
      by blast
    then show ?thesis
    proof cases
      case 1
      with Failed show ?thesis by (simp add: axiosSend_NoConfig)
    next
      case 2
      with Failed show ?thesis by (simp add: axiosSend_noRetry)
    next
      case 3
      with Failed show ?thesis by (simp add: axiosSend_exhausted)
    next
      case 4
      let ?cfg' = "\<lparr>retryCount = Some (orDefault (retryCount cfg) 0 + 1),
                     maxRetries = Some (orDefault (maxRetries cfg) 3)\<rparr>"
      have ih: "snd (axiosSend srv (Suc n) ?cfg') =
         map backoffDelay [orDefault (retryCount ?cfg') 0 + 1 ..<
           orDefault (retryCount ?cfg') 0 + 1 + length (snd (axiosSend srv (Suc n) ?cfg'))]"
        using "1.IH"[OF Failed] 4 by simp
      have eq: "axiosSend srv n cfg =
         (fst (axiosSend srv (Suc n) ?cfg'),
          backoffDelay (orDefault (retryCount cfg) 0 + 1) # snd (axiosSend srv (Suc n) ?cfg'))"
        using axiosSend_retry[of srv n f cfg] Failed 4 by simp
      show ?thesis
        apply (subst (1 2) eq)
        apply (simp only: snd_conv length_Cons)
        apply (subst (1) ih)
        apply (simp add: upt_conv_Cons del: upt_Suc)
        done
    qed
  qed
qed

text \<open>The number of retries never exceeds what is left of the budget.\<close>

lemma axiosSend_budget:
  "length (snd (axiosSend srv n cfg)) \<le> orDefault (maxRetries cfg) 3 - orDefault (retryCount cfg) 0"
proof (induction srv n cfg rule: axiosSend.induct)
  case (1 srv n cfg)
  show ?case
  proof (cases "srv n")
    case (Reply body)
    then show ?thesis by (simp add: axiosSend_Reply)
  next
    case (Failed f)
    consider "f = NoConfig" | "f \<noteq> NoConfig" "noRetryStatus f"
      | "f \<noteq> NoConfig" "\<not> noRetryStatus f"
        "\<not> orDefault (retryCount cfg) 0 < orDefault (maxRetries cfg) 3"
      | "f \<noteq> NoConfig" "\<not> noRetryStatus f"
        "orDefault (retryCount cfg) 0 < orDefault (maxRetries cfg) 3"
      by blast
    then show ?thesis
    proof cases
      case 1
      with Failed show ?thesis by (simp add: axiosSend_NoConfig)
    next
      case 2
      with Failed show ?thesis by (simp add: axiosSend_noRetry)
    next
      case 3
      with Failed show ?thesis by (simp add: axiosSend_exhausted)
    next
      case 4
      let ?cfg' = "\<lparr>retryCount = Some (orDefault (retryCount cfg) 0 + 1),
                     maxRetries = Some (orDefault (maxRetries cfg) 3)\<rparr>"
      have ih: "length (snd (axiosSend srv (Suc n) ?cfg')) \<le>
          orDefault (maxRetries ?cfg') 3 - orDefault (retryCount ?cfg') 0"
        using "1.IH"[OF Failed] 4 by simp
      have eq: "axiosSend srv n cfg =
         (fst (axiosSend srv (Suc n) ?cfg'),
          backoffDelay (orDefault (retryCount cfg) 0 + 1) # snd (axiosSend srv (Suc n) ?cfg'))"
        using axiosSend_retry[of srv n f cfg] Failed 4 by simp
      have "orDefault (Some (orDefault (maxRetries cfg) 3)) 3 = orDefault (maxRetries cfg) 3"
        using 4 by (simp add: orDefault_Some_pos)
      then show ?thesis
        using ih 4 by (simp add: eq)
    qed
  qed
qed

lemma default_delays_cases:
  "snd (axiosSend srv 0 freshConfig) \<in> {[], [2000], [2000, 4000], [2000, 4000, 8000]}"
proof -
  let ?ds = "snd (axiosSend srv 0 freshConfig)"
  have len: "length ?ds \<le> 3"
    using axiosSend_budget[of srv 0 freshConfig] by simp
  have ds: "?ds = map backoffDelay [1 ..< 1 + length ?ds]"
    using axiosSend_delays[of srv 0 freshConfig] by simp
  have m1: "map backoffDelay [1 ..< 1 + 1] = [2000]"
    and m2: "map backoffDelay [1 ..< 1 + 2] = [2000, 4000]"
    and m3: "map backoffDelay [1 ..< 1 + 3] = [2000, 4000, 8000]"
    by (simp_all add: backoffDelay_def upt_rec)
  from len consider "length ?ds = 0" | "length ?ds = 1" | "length ?ds = 2" | "length ?ds = 3"
    by linarith
  then show ?thesis
  proof cases
    case 1 then show ?thesis by simp
  next
    case 2
    from ds have "?ds = map backoffDelay [1 ..< 1 + 1]" unfolding 2 .
    then show ?thesis unfolding m1 by simp
  next
    case 3
    from ds have "?ds = map backoffDelay [1 ..< 1 + 2]" unfolding 3 .
    then show ?thesis unfolding m2 by simp
  next
    case 4
    from ds have "?ds = map backoffDelay [1 ..< 1 + 3]" unfolding 4 .
    then show ?thesis unfolding m3 by simp
  qed
qed

lemma retryableE:
  assumes "retryable r"
  obtains f where "r = Failed f" "f \<noteq> NoConfig" "\<not> noRetryStatus f"
  using assms by (cases r) (auto simp: retryable_def)

lemma axiosSend_all_retryable:
  assumes "\<forall>k. retryable (srv k)"
  shows "\<exists>f. srv 3 = Failed f \<and> axiosSend srv 0 freshConfig = (Inl f, [2000, 4000, 8000])"
proof -
  obtain f0 where f0: "srv 0 = Failed f0" "f0 \<noteq> NoConfig" "\<not> noRetryStatus f0"
    using assms retryableE by blast
  obtain f1 where f1: "srv (Suc 0) = Failed f1" "f1 \<noteq> NoConfig" "\<not> noRetryStatus f1"
    using assms retryableE by blast
  obtain f2 where f2: "srv (Suc (Suc 0)) = Failed f2" "f2 \<noteq> NoConfig" "\<not> noRetryStatus f2"
    using assms retryableE by blast
  obtain f3 where f3: "srv (Suc (Suc (Suc 0))) = Failed f3" "f3 \<noteq> NoConfig" "\<not> noRetryStatus f3"
    using assms retryableE by blast
  let ?c1 = "\<lparr>retryCount = Some (Suc 0), maxRetries = Some 3\<rparr>"
  let ?c2 = "\<lparr>retryCount = Some (Suc (Suc 0)), maxRetries = Some 3\<rparr>"
  let ?c3 = "\<lparr>retryCount = Some (Suc (Suc (Suc 0))), maxRetries = Some 3\<rparr>"
  have m3: "orDefault (Some 3) 3 = 3" by (simp add: orDefault_def)
  have s3: "axiosSend srv (Suc (Suc (Suc 0))) ?c3 = (Inl f3, [])"
    using axiosSend_exhausted[of srv "Suc (Suc (Suc 0))" f3 ?c3] f3 by (simp add: m3)
  have s2: "axiosSend srv (Suc (Suc 0)) ?c2 = (Inl f3, [8000])"
    using axiosSend_retry[of srv "Suc (Suc 0)" f2 ?c2] f2 s3
    by (simp add: m3 backoffDelay_def)
  have s1: "axiosSend srv (Suc 0) ?c1 = (Inl f3, [4000, 8000])"
    using axiosSend_retry[of srv "Suc 0" f1 ?c1] f1 s2
    by (simp add: m3 backoffDelay_def)
  have s0: "axiosSend srv 0 freshConfig = (Inl f3, [2000, 4000, 8000])"
    using axiosSend_retry[of srv 0 f0 freshConfig] f0 s1
    by (simp add: backoffDelay_def)
  have "srv 3 = Failed f3" using f3 by (simp add: numeral_3_eq_3)
  with s0 show ?thesis by blast
qed

section \<open>The provider chain of processWithPersona\<close>

lemma personaBlock_noKey [simp]: "personaBlock False srv pr p prompt = (None, [])"
  by (simp add: personaBlock_def)

lemma personaBlock_rejected:
  "fst (axiosSend srv 0 freshConfig) = Inl f \<Longrightarrow> fst (personaBlock hasKey srv pr p prompt) = None"
  by (cases "axiosSend srv 0 freshConfig") (simp add: personaBlock_def)

text \<open>A provider whose block falls through leaves the result to the rest of the chain.\<close>

lemma processWithPersona_skip_Together:
  assumes "fst (personaBlock (keys Together) (srv Together) Together p prompt) = None"
  shows "fst (processWithPersona keys srv prompt p) =
         fst (processWithPersona (keys(Together := False)) srv prompt p)"
proof -
  obtain c1 where b: "personaBlock (keys Together) (srv Together) Together p prompt = (None, c1)"
    using assms by (cases "personaBlock (keys Together) (srv Together) Together p prompt") simp
  show ?thesis
    by (simp add: processWithPersona_def b split: prod.splits option.splits)
qed


section \<open>The provider chain of generateCustomContract\<close>












section \<open>Occurrences of a marker in a concatenation\<close>

lemma startsWith_prefix: "startsWith s m \<longleftrightarrow> prefix m s"
  by (induction s m rule: startsWith.induct) auto

lemma str_includes_sublist: "str_includes s m \<longleftrightarrow> sublist m s"
proof (induction s)
  case Nil
  then show ?case by simp
next
  case (Cons x s)
  then show ?case by (simp add: startsWith_prefix sublist_Cons_right)
qed

lemma overlapEnd_iff:
  "overlapEnd a m \<longleftrightarrow> (\<exists>t. t \<noteq> [] \<and> t \<noteq> m \<and> prefix t m \<and> suffix t a)"
proof (induction a)
  case Nil
  then show ?case by simp
next
  case (Cons x a)
  show ?case
  proof
    assume "overlapEnd (x # a) m"
    then consider "prefix (x # a) m" "x # a \<noteq> m" | "overlapEnd a m"
      by (auto simp: startsWith_prefix split: if_splits)
    then show "\<exists>t. t \<noteq> [] \<and> t \<noteq> m \<and> prefix t m \<and> suffix t (x # a)"
    proof cases
      case 1
      then show ?thesis by (intro exI[of _ "x # a"]) simp
    next
      case 2
      with Cons obtain t where "t \<noteq> []" "t \<noteq> m" "prefix t m" "suffix t a" by blast
      then show ?thesis by (intro exI[of _ t]) (simp add: suffix_ConsI)
    qed
  next
    assume "\<exists>t. t \<noteq> [] \<and> t \<noteq> m \<and> prefix t m \<and> suffix t (x # a)"
    then obtain t where t: "t \<noteq> []" "t \<noteq> m" "prefix t m" "suffix t (x # a)" by blast
    from t(4) have "t = x # a \<or> suffix t a" by (simp add: suffix_Cons)
    then show "overlapEnd (x # a) m"
    proof
      assume "t = x # a"
      with t show ?thesis by (simp add: startsWith_prefix)
    next
      assume "suffix t a"
      with t Cons show ?thesis by auto
    qed
  qed
qed

lemma suffixStarts_iff:
  "suffixStarts b u \<longleftrightarrow> (\<exists>v. v \<noteq> [] \<and> suffix v u \<and> prefix v b)"
proof (induction u)
  case Nil
  then show ?case by simp
next
  case (Cons c u)
  show ?case
  proof
    assume "suffixStarts b (c # u)"
    then consider "prefix (c # u) b" | "suffixStarts b u"
      by (auto simp: startsWith_prefix split: if_splits)
    then show "\<exists>v. v \<noteq> [] \<and> suffix v (c # u) \<and> prefix v b"
    proof cases
      case 1
      then show ?thesis by (intro exI[of _ "c # u"]) simp
    next
      case 2
      with Cons obtain v where "v \<noteq> []" "suffix v u" "prefix v b" by blast
      then show ?thesis by (intro exI[of _ v]) (simp add: suffix_ConsI)
    qed
  next
    assume "\<exists>v. v \<noteq> [] \<and> suffix v (c # u) \<and> prefix v b"
    then obtain v where v: "v \<noteq> []" "suffix v (c # u)" "prefix v b" by blast
    from v(2) have "v = c # u \<or> suffix v u" by (simp add: suffix_Cons)
    then show "suffixStarts b (c # u)"
    proof
      assume "v = c # u"
      with v show ?thesis by (simp add: startsWith_prefix)
    next
      assume "suffix v u"
      with v Cons show ?thesis by auto
    qed
  qed
qed

lemma overlapStart_iff:
  "overlapStart b m \<longleftrightarrow> (\<exists>v. v \<noteq> [] \<and> v \<noteq> m \<and> suffix v m \<and> prefix v b)"
proof (cases m)
  case Nil
  then show ?thesis by (simp add: overlapStart_def)
next
  case (Cons c u)
  have "(\<exists>v. v \<noteq> [] \<and> suffix v u \<and> prefix v b) \<longleftrightarrow>
        (\<exists>v. v \<noteq> [] \<and> v \<noteq> c # u \<and> suffix v (c # u) \<and> prefix v b)"
  proof
    assume "\<exists>v. v \<noteq> [] \<and> suffix v u \<and> prefix v b"
    then obtain v where v: "v \<noteq> []" "suffix v u" "prefix v b" by blast
    from v(2) have "length v \<le> length u" by (rule suffix_length_le)
    then have "v \<noteq> c # u" by auto
    with v show "\<exists>v. v \<noteq> [] \<and> v \<noteq> c # u \<and> suffix v (c # u) \<and> prefix v b"
      by (intro exI[of _ v]) (simp add: suffix_ConsI)
  next
    assume "\<exists>v. v \<noteq> [] \<and> v \<noteq> c # u \<and> suffix v (c # u) \<and> prefix v b"
    then obtain v where v: "v \<noteq> []" "v \<noteq> c # u" "suffix v (c # u)" "prefix v b" by blast
    then have "suffix v u" by (simp add: suffix_Cons)
    with v show "\<exists>v. v \<noteq> [] \<and> suffix v u \<and> prefix v b" by blast
  qed
  with Cons show ?thesis by (simp add: overlapStart_def suffixStarts_iff)
qed


lemma overlapEnd_append:
  assumes "overlapEnd (p @ a) m"
  shows "overlapEnd a m \<or> str_includes m a"
proof -
  from assms obtain t where t: "t \<noteq> []" "t \<noteq> m" "prefix t m" "suffix t (p @ a)"
    unfolding overlapEnd_iff by blast
  from t(4) consider "suffix t a" | t' where "t = t' @ a"
    by (auto simp: suffix_append)
  then show ?thesis
  proof cases
    case 1
    with t show ?thesis unfolding overlapEnd_iff by blast
  next
    case 2
    then have "sublist a t" by simp
    moreover from t(3) have "sublist t m" by simp
    ultimately have "sublist a m" by (rule sublist_order.order.trans)
    then show ?thesis by (simp add: str_includes_sublist)
  qed
qed





lemma leftSep_endSafe: "leftSep a \<Longrightarrow> endSafe (p @ a)"
  unfolding leftSep_def endSafe_def list_all_iff
  using overlapEnd_append by blast





lemma markers_no_newline: "m \<in> set markers \<Longrightarrow> CHR 0x0A \<notin> set m"
  by (auto simp: markers_def)




lemma lines_Cons2: "lines (l # l' # ls) = l @ CHR 0x0A # lines (l' # ls)"
  by (simp add: lines_def)

lemma lines_single [simp]: "lines [l] = l"
  by (simp add: lines_def)






lemma overlapStart_line:
  assumes "CHR 0x0A \<notin> set m" "overlapStart (l @ CHR 0x0A # r) m"
  shows "overlapStart l m"
proof -
  from assms(2) obtain v where v: "v \<noteq> []" "v \<noteq> m" "suffix v m" "prefix v (l @ CHR 0x0A # r)"
    unfolding overlapStart_iff by blast
  from v(3) assms(1) have nv: "CHR 0x0A \<notin> set v" by (auto simp: suffix_def)
  from v(4) consider "prefix v l" | us where "v = l @ us" "prefix us (CHR 0x0A # r)"
    by (auto simp: prefix_append)
  then have "prefix v l"
  proof cases
    case 1
    then show ?thesis .
  next
    case 2
    with nv have "us = []" by (cases us) auto
    with 2 show ?thesis by simp
  qed
  with v show ?thesis unfolding overlapStart_iff by blast
qed

lemma startSafe_lines: "startSafe l \<Longrightarrow> startSafe (lines (l # l' # ls) @ r)"
  unfolding startSafe_def list_all_iff lines_Cons2
  using overlapStart_line markers_no_newline by (metis append_Cons append_assoc)





section \<open>Evaluating the marker tests on the templates\<close>




text \<open>
  Congruence rules that stop the simplifier from walking through a long literal again
  at every step of an evaluation.
\<close>

lemma hasMarker_block: "hasMarker s = hasMarker s" by (rule refl)
lemma markerAt_block: "markerAt x s = markerAt x s" by (rule refl)
lemma startsWith_block: "startsWith s m = startsWith s m" by (rule refl)
lemma str_includes_block: "str_includes s m = str_includes s m" by (rule refl)
lemma list_all_block: "list_all P xs = list_all P xs" by (rule refl)
lemma list_ex_block: "list_ex P xs = list_ex P xs" by (rule refl)

lemmas blocks = hasMarker_block markerAt_block startsWith_block str_includes_block
  list_all_block list_ex_block



lemma startSafe_lines0: "startSafe l \<Longrightarrow> startSafe (lines (l # l' # ls))"
  using startSafe_lines[of l l' ls "[]"] by simp








































section \<open>The fallback templates pass the validator\<close>










lemma placeholderFree_Nil [simp]: "placeholderFree []"
  by (simp add: placeholderFree_def)



















section \<open>The cache key\<close>





text \<open>
  Under one version setting, a key of underscore-free fields is the key of no other
  triple of fields, whatever these contain: the underscores are counted.
\<close>

lemma count_underscores:
  "count_list (a @ CHR ''_'' # b @ CHR ''_'' # c) (CHR ''_'') =
     2 + count_list a (CHR ''_'') + count_list b (CHR ''_'') + count_list c (CHR ''_'')"
  by simp



section \<open>Servers that always give the same answer\<close>

lemma axiosSend_constant:
  assumes "\<forall>n. srv n = r"
  shows "axiosSend srv 0 freshConfig =
     (case r of
        Reply body \<Rightarrow> (Inr body, [])
      | Failed f \<Rightarrow> (Inl f, if f = NoConfig \<or> noRetryStatus f then [] else [2000, 4000, 8000]))"
proof (cases r)
  case (Reply body)
  with assms show ?thesis by (simp add: axiosSend_Reply)
next
  case (Failed f)
  show ?thesis
  proof (cases "f = NoConfig \<or> noRetryStatus f")
    case True
    with assms Failed show ?thesis
      using axiosSend_NoConfig[of srv 0 freshConfig] axiosSend_noRetry[of srv 0 f freshConfig]
      by auto
  next
    case False
    with assms Failed have "\<forall>k. retryable (srv k)" by (simp add: retryable_def)
    from axiosSend_all_retryable[OF this]
    obtain f' where f': "srv 3 = Failed f'"
      and eq: "axiosSend srv 0 freshConfig = (Inl f', [2000, 4000, 8000])" by blast
    from f' assms Failed have "f' = f" by simp
    with eq Failed False show ?thesis by simp
  qed
qed

lemma axiosSend_answering [simp]:
  "axiosSend (answering a b c Together) 0 freshConfig =
     (case a of
        Reply body \<Rightarrow> (Inr body, [])
      | Failed f \<Rightarrow> (Inl f, if f = NoConfig \<or> noRetryStatus f then [] else [2000, 4000, 8000]))"
  "axiosSend (answering a b c OpenRouter) 0 freshConfig =
     (case b of
        Reply body \<Rightarrow> (Inr body, [])
      | Failed f \<Rightarrow> (Inl f, if f = NoConfig \<or> noRetryStatus f then [] else [2000, 4000, 8000]))"
  "axiosSend (answering a b c AIML) 0 freshConfig =
     (case c of
        Reply body \<Rightarrow> (Inr body, [])
      | Failed f \<Rightarrow> (Inl f, if f = NoConfig \<or> noRetryStatus f then [] else [2000, 4000, 8000]))"
  by (rule axiosSend_constant, simp)+

section \<open>The generation endpoint\<close>

lemma generate_key:
  "generate env clk cache rq =
     (case cache (requestKey (env_solidityVersion env) rq) of
        None \<Rightarrow> generateMiss env clk cache rq
      | Some cachedContract \<Rightarrow>
          (if checkTime clk - ce_timestamp cachedContract < CACHE_DURATION then
             (Success
                \<lparr>rd_analysis = ce_analysis cachedContract,
                 rd_code = ce_code cachedContract,
                 rd_vulnerabilities = ce_vulnerabilities cachedContract,
                 rd_recommendations = ce_recommendations cachedContract,
                 rd_gasAnalysis = ce_gasAnalysis cachedContract\<rparr>
                (hitTime clk - startTime clk) (Some True),
              cache, [])
           else generateMiss env clk cache rq))"
  by (simp add: generate_def requestKey_def)

lemma generateMiss_invalid:
  "\<not> validRequest rq \<Longrightarrow>
   generateMiss env clk cache rq =
     (Failure 400 ''Invalid entity type, transaction type, or contract type'' None, cache, [])"
  by (simp add: generateMiss_def Let_def)

lemma personaBlock_Some:
  "fst (personaBlock k srv pr p prompt) = Some t \<Longrightarrow> 50 \<le> length t"
  by (cases "axiosSend srv 0 freshConfig")
     (auto simp: personaBlock_def split: if_splits sum.splits option.splits)

lemma processWithPersona_Inr:
  assumes "fst (processWithPersona keys srv prompt p) = Inr t"
  shows "50 \<le> length t"
proof -
  obtain r1 c1 where b1: "personaBlock (keys Together) (srv Together) Together p prompt = (r1, c1)"
    by (cases "personaBlock (keys Together) (srv Together) Together p prompt")
  obtain r2 c2 where b2: "personaBlock (keys OpenRouter) (srv OpenRouter) OpenRouter p prompt = (r2, c2)"
    by (cases "personaBlock (keys OpenRouter) (srv OpenRouter) OpenRouter p prompt")
  obtain r3 c3 where b3: "personaBlock (keys AIML) (srv AIML) AIML p prompt = (r3, c3)"
    by (cases "personaBlock (keys AIML) (srv AIML) AIML p prompt")
  from assms have "r1 = Some t \<or> r2 = Some t \<or> r3 = Some t"
    by (auto simp: processWithPersona_def b1 b2 b3 split: option.splits)
  then show ?thesis
    using personaBlock_Some[of "keys Together" "srv Together" Together p prompt t]
      personaBlock_Some[of "keys OpenRouter" "srv OpenRouter" OpenRouter p prompt t]
      personaBlock_Some[of "keys AIML" "srv AIML" AIML p prompt t]
    by (auto simp: b1 b2 b3)
qed

lemma codeTask_Inr: "codeTask r = Inr code \<longleftrightarrow> r = Inr code \<and> codeAccepted code"
  by (auto simp: codeTask_def split: sum.splits if_splits)

text \<open>The handler after the validation, in terms of the three task results.\<close>

lemma generateMiss_calls:
  assumes "validRequest rq"
  shows "snd (snd (generateMiss env clk cache rq)) =
           snd (processWithPersona (env_keys env) (env_servers env nanjunda)
                  (taskPrompt rq nanjunda) nanjunda) @
           snd (processWithPersona (env_keys env) (env_servers env achyutha)
                  (taskPrompt rq achyutha) achyutha) @
           snd (processWithPersona (env_keys env) (env_servers env sandeep)
                  (taskPrompt rq sandeep) sandeep)"
  using assms
  by (auto simp: generateMiss_def Let_def split: prod.splits sum.splits)

lemma generateMiss_ok:
  assumes "validRequest rq"
    and "fst (processWithPersona (env_keys env) (env_servers env nanjunda)
               (taskPrompt rq nanjunda) nanjunda) = Inr analysis"
    and "codeTask (fst (processWithPersona (env_keys env) (env_servers env achyutha)
               (taskPrompt rq achyutha) achyutha)) = Inr code"
    and "fst (processWithPersona (env_keys env) (env_servers env sandeep)
               (taskPrompt rq sandeep) sandeep) = Inr securityAnalysis"
  shows "fst (generateMiss env clk cache rq) =
           Success
             \<lparr>rd_analysis = analysis, rd_code = code,
              rd_vulnerabilities = extractVulnerabilities securityAnalysis,
              rd_recommendations = extractRecommendations securityAnalysis,
              rd_gasAnalysis = analyzeGasUsage code\<rparr>
             (endTime clk - startTime clk) None"
    and "fst (snd (generateMiss env clk cache rq)) =
           cache(requestKey (env_solidityVersion env) rq \<mapsto>
                   newEntry env clk rq analysis code securityAnalysis)"
  using assms
  by (auto simp: generateMiss_def Let_def requestKey_def split: prod.splits sum.splits)

lemma generateMiss_failed:
  assumes "validRequest rq"
    and "(\<exists>e. fst (processWithPersona (env_keys env) (env_servers env nanjunda)
               (taskPrompt rq nanjunda) nanjunda) = Inl e) \<or>
         (\<exists>e. codeTask (fst (processWithPersona (env_keys env) (env_servers env achyutha)
               (taskPrompt rq achyutha) achyutha)) = Inl e) \<or>
         (\<exists>e. fst (processWithPersona (env_keys env) (env_servers env sandeep)
               (taskPrompt rq sandeep) sandeep) = Inl e)"
  shows "\<exists>e. fst (generateMiss env clk cache rq) =
               Failure (statusCode e) e (Some (endTime clk - startTime clk))"
    and "fst (snd (generateMiss env clk cache rq)) = cache"
  using assms
  by (auto simp: generateMiss_def Let_def split: prod.splits sum.splits)



text \<open>What a successful run of the pipeline returns and stores.\<close>

lemma generateMiss_Success:
  assumes "fst (generateMiss env clk cache rq) = Success d pt fc"
  shows "\<exists>analysis code securityAnalysis.
           validRequest rq \<and> fc = None \<and> pt = endTime clk - startTime clk \<and>
           codeAccepted code \<and> 50 \<le> length code \<and>
           d = \<lparr>rd_analysis = analysis, rd_code = code,
                 rd_vulnerabilities = extractVulnerabilities securityAnalysis,
                 rd_recommendations = extractRecommendations securityAnalysis,
                 rd_gasAnalysis = analyzeGasUsage code\<rparr> \<and>
           fst (snd (generateMiss env clk cache rq)) =
             cache(requestKey (env_solidityVersion env) rq \<mapsto>
                     newEntry env clk rq analysis code securityAnalysis)"
proof -
  have v: "validRequest rq"
    using assms generateMiss_invalid[of rq env clk cache] by (cases "validRequest rq") auto
  let ?A = "processWithPersona (env_keys env) (env_servers env nanjunda)
              (taskPrompt rq nanjunda) nanjunda"
  let ?G = "processWithPersona (env_keys env) (env_servers env achyutha)
              (taskPrompt rq achyutha) achyutha"
  let ?S = "processWithPersona (env_keys env) (env_servers env sandeep)
              (taskPrompt rq sandeep) sandeep"
  have "\<not> ((\<exists>e. fst ?A = Inl e) \<or> (\<exists>e. codeTask (fst ?G) = Inl e) \<or> (\<exists>e. fst ?S = Inl e))"
    using generateMiss_failed(1)[OF v, of env clk cache] assms by auto
  then obtain analysis code securityAnalysis where
    r: "fst ?A = Inr analysis" "codeTask (fst ?G) = Inr code" "fst ?S = Inr securityAnalysis"
    by (cases "fst ?A"; cases "codeTask (fst ?G)"; cases "fst ?S") auto
  from r(2) have g: "fst ?G = Inr code" "codeAccepted code" by (simp_all add: codeTask_Inr)
  from g(1) have len: "50 \<le> length code" by (rule processWithPersona_Inr)
  from generateMiss_ok[OF v r] assms v g(2) len show ?thesis by auto
qed

lemma generate_fresh:
  assumes "fst (generate env clk cache rq) = Success d pt None"
  shows "generate env clk cache rq = generateMiss env clk cache rq"
  using assms by (auto simp: generate_key split: option.splits if_splits)

lemma newEntry_fields [simp]:
  "ce_timestamp (newEntry env clk rq a c s) = storeTime clk"
  "ce_analysis (newEntry env clk rq a c s) = a"
  "ce_code (newEntry env clk rq a c s) = c"
  "ce_vulnerabilities (newEntry env clk rq a c s) = extractVulnerabilities s"
  "ce_recommendations (newEntry env clk rq a c s) = extractRecommendations s"
  "ce_gasAnalysis (newEntry env clk rq a c s) = analyzeGasUsage c"
  by (simp_all add: newEntry_def)







lemma sampleRequest_valid: "validRequest sampleRequest"
  by (simp add: validRequest_def sampleRequest_def entityTypes_def transactionTypes_def
        contractTypes_def)

lemma envOf_fields [simp]:
  "env_solidityVersion (envOf srv) = None" "env_keys (envOf srv) pr = True"
  "env_servers (envOf srv) p = srv"
  by (simp_all add: envOf_def allKeys_def)

text \<open>The chain of one persona task against servers that always give the same answers.\<close>

lemma processWithPersona_all_fail:
  assumes "\<And>b. a \<noteq> Reply b" "\<And>b. b' \<noteq> Reply b" "\<And>b. c \<noteq> Reply b"
  shows "fst (processWithPersona (env_keys (envOf (answering a b' c))) (answering a b' c) prompt p) =
           Inl ''Failed to generate content with any available API''"
    and "snd (processWithPersona (env_keys (envOf (answering a b' c))) (answering a b' c) prompt p) \<noteq> []"
  using assms
  by (cases a; cases b'; cases c; simp add: processWithPersona_def personaBlock_def)+

lemma processWithPersona_first_answers:
  assumes "50 \<le> length text"
  shows "fst (processWithPersona (env_keys (envOf (answering (Reply (Some text)) b c)))
                (answering (Reply (Some text)) b c) prompt p) = Inr text"
  using assms by (auto simp: processWithPersona_def personaBlock_def)

subsection \<open>Runs of the endpoint on the sample request\<close>


lemma generate_hit:
  assumes "cache (requestKey (env_solidityVersion env) rq) = Some ce"
    and "checkTime clk - ce_timestamp ce < CACHE_DURATION"
  shows "generate env clk cache rq =
     (Success
        \<lparr>rd_analysis = ce_analysis ce, rd_code = ce_code ce,
         rd_vulnerabilities = ce_vulnerabilities ce,
         rd_recommendations = ce_recommendations ce,
         rd_gasAnalysis = ce_gasAnalysis ce\<rparr>
        (hitTime clk - startTime clk) (Some True),
      cache, [])"
  using assms by (simp add: generate_key)

lemma sampleCode_accepted: "codeAccepted sampleCode" "50 \<le> length sampleCode"
  by (simp_all add: codeAccepted_def sampleCode_def)

lemma sample_run:
  "fst (generate (envOf (answering (Reply (Some sampleCode)) b c)) (atTime 0) Map.empty sampleRequest) =
     Success sampleData 0 None"
proof -
  let ?srv = "answering (Reply (Some sampleCode)) b c"
  have a: "\<And>prompt p. fst (processWithPersona (env_keys (envOf ?srv)) ?srv prompt p) = Inr sampleCode"
    using processWithPersona_first_answers[OF sampleCode_accepted(2)] by simp
  have "fst (generateMiss (envOf ?srv) (atTime 0) Map.empty sampleRequest) =
      Success sampleData (endTime (atTime 0) - startTime (atTime 0)) None"
    unfolding sampleData_def
    by (rule generateMiss_ok(1)[OF sampleRequest_valid])
       (simp_all add: a codeTask_def sampleCode_accepted)
  then show ?thesis by (simp add: generate_key atTime_def)
qed

lemma atTime_fields:
  "startTime (atTime t) = t" "checkTime (atTime t) = t" "hitTime (atTime t) = t"
  "storeDate (atTime t) = t" "storeTime (atTime t) = t" "endTime (atTime t) = t"
  by (simp_all add: atTime_def)

lemma newEntry_checked [simp]:
  "ce_lastChecked (newEntry env clk rq a c s) = storeDate clk"
  "ce_dependencies (newEntry env clk rq a c s) =
     [(''@openzeppelin/contracts-upgradeable'', ''^5.0.0''),
      (''@openzeppelin/contracts'', ''^5.0.0'')]"
  by (simp_all add: newEntry_def)

lemma sample_cache:
  "fst (snd (generate (envOf (answering (Reply (Some sampleCode)) b c)) (atTime 0) Map.empty sampleRequest)) =
     Map.empty(requestKey None sampleRequest \<mapsto>
       newEntry (envOf (answering (Reply (Some sampleCode)) b c)) (atTime 0) sampleRequest
         sampleCode sampleCode sampleCode)"
proof -
  let ?srv = "answering (Reply (Some sampleCode)) b c"
  have a: "\<And>prompt p. fst (processWithPersona (env_keys (envOf ?srv)) ?srv prompt p) = Inr sampleCode"
    using processWithPersona_first_answers[OF sampleCode_accepted(2)] by simp
  have "fst (snd (generateMiss (envOf ?srv) (atTime 0) Map.empty sampleRequest)) =
     Map.empty(requestKey (env_solidityVersion (envOf ?srv)) sampleRequest \<mapsto>
       newEntry (envOf ?srv) (atTime 0) sampleRequest sampleCode sampleCode sampleCode)"
    by (rule generateMiss_ok(2)[OF sampleRequest_valid])
       (simp_all add: a codeTask_def sampleCode_accepted)
  then show ?thesis by (simp add: generate_key)
qed

subsection \<open>The requests of the persona tasks\<close>

lemma personaBlock_calls:
  assumes "c \<in> set (snd (personaBlock k srv pr p prompt))"
  shows "pc_system c = systemMessage p \<and> pc_user c = prompt \<and> pc_maxTokens c = maxTokens p"
  using assms by (auto simp: personaBlock_def split: if_splits prod.splits)

lemma processWithPersona_calls:
  assumes "c \<in> set (snd (processWithPersona keys srv prompt p))"
  shows "pc_system c = systemMessage p \<and> pc_user c = prompt \<and> pc_maxTokens c = maxTokens p"
proof -
  obtain r1 c1 where 1: "personaBlock (keys Together) (srv Together) Together p prompt = (r1, c1)"
    by (cases "personaBlock (keys Together) (srv Together) Together p prompt")
  obtain r2 c2 where 2: "personaBlock (keys OpenRouter) (srv OpenRouter) OpenRouter p prompt = (r2, c2)"
    by (cases "personaBlock (keys OpenRouter) (srv OpenRouter) OpenRouter p prompt")
  obtain r3 c3 where 3: "personaBlock (keys AIML) (srv AIML) AIML p prompt = (r3, c3)"
    by (cases "personaBlock (keys AIML) (srv AIML) AIML p prompt")
  from assms 1 2 3 have "c \<in> set c1 \<or> c \<in> set c2 \<or> c \<in> set c3"
    by (auto simp: processWithPersona_def split: option.splits)
  moreover have "set c1 = set (snd (personaBlock (keys Together) (srv Together) Together p prompt))"
    "set c2 = set (snd (personaBlock (keys OpenRouter) (srv OpenRouter) OpenRouter p prompt))"
    "set c3 = set (snd (personaBlock (keys AIML) (srv AIML) AIML p prompt))"
    using 1 2 3 by simp_all
  ultimately show ?thesis using personaBlock_calls by blast
qed

lemma processWithPersona_answer_call:
  assumes "50 \<le> length text"
  shows "snd (processWithPersona (env_keys (envOf (answering (Reply (Some text)) b c)))
                (answering (Reply (Some text)) b c) prompt p) =
           [\<lparr>pc_provider = Together, pc_model = providerModel Together,
             pc_system = systemMessage p, pc_user = prompt, pc_maxTokens = maxTokens p,
             pc_backoffs = []\<rparr>]"
  using assms by (auto simp: processWithPersona_def personaBlock_def)

lemma sample_calls:
  "snd (snd (generate (envOf (answering (Reply (Some sampleCode)) b c)) (atTime 0) Map.empty sampleRequest)) =
     map (\<lambda>p. \<lparr>pc_provider = Together, pc_model = providerModel Together,
             pc_system = systemMessage p, pc_user = taskPrompt sampleRequest p,
             pc_maxTokens = maxTokens p, pc_backoffs = []\<rparr>) [nanjunda, achyutha, sandeep]"
proof -
  let ?E = "envOf (answering (Reply (Some sampleCode)) b c)"
  have "snd (snd (generate ?E (atTime 0) Map.empty sampleRequest)) =
        snd (snd (generateMiss ?E (atTime 0) Map.empty sampleRequest))"
    by (simp add: generate_key)
  also have "\<dots> = map (\<lambda>p. \<lparr>pc_provider = Together, pc_model = providerModel Together,
             pc_system = systemMessage p, pc_user = taskPrompt sampleRequest p,
             pc_maxTokens = maxTokens p, pc_backoffs = []\<rparr>) [nanjunda, achyutha, sandeep]"
    unfolding generateMiss_calls[OF sampleRequest_valid]
    using processWithPersona_answer_call[OF sampleCode_accepted(2), of b c]
    by (simp del: taskPrompt.simps)
  finally show ?thesis .
qed

subsection \<open>What the two pipelines return as code\<close>







section \<open>Claims\<close>

text \<open>
  C8, as amended. With the default configuration the interceptor retries a request at
  most three times, and the delays before the retries are 2, 4 and 8 seconds, in that
  order. Every failure other than a response of status 400, 401 or 403 (and other than
  an error without request configuration) is retried while the budget lasts: when every
  attempt fails so, the request is rejected after exactly three retries, and
  \<open>processWithPersona\<close> goes on to the next provider, its result being that of the chain
  without the first provider.
\<close>

theorem interceptor_retries_and_backoff:
  "snd (axiosSend (srv pr) 0 freshConfig) \<in> {[], [2000], [2000, 4000], [2000, 4000, 8000]} \<and>
   ((\<forall>k. retryable (srv Together k)) \<longrightarrow>
      (\<exists>f. srv Together 3 = Failed f \<and>
           axiosSend (srv Together) 0 freshConfig = (Inl f, [2000, 4000, 8000])) \<and>
      fst (processWithPersona keys srv prompt p) =
      fst (processWithPersona (keys(Together := False)) srv prompt p))"
proof (intro conjI impI)
  show "snd (axiosSend (srv pr) 0 freshConfig) \<in> {[], [2000], [2000, 4000], [2000, 4000, 8000]}"
    by (rule default_delays_cases)
next
  assume a: "\<forall>k. retryable (srv Together k)"
  from axiosSend_all_retryable[OF a]
  show ex: "\<exists>f. srv Together 3 = Failed f \<and>
           axiosSend (srv Together) 0 freshConfig = (Inl f, [2000, 4000, 8000])" .
  then obtain f where "fst (axiosSend (srv Together) 0 freshConfig) = Inl f" by auto
  then have "fst (personaBlock (keys Together) (srv Together) Together p prompt) = None"
    by (rule personaBlock_rejected)
  then show "fst (processWithPersona keys srv prompt p) =
      fst (processWithPersona (keys(Together := False)) srv prompt p)"
    by (rule processWithPersona_skip_Together)
qed

theorem interceptor_retries_and_backoff_witness:
  "(\<forall>k. retryable (answering (Failed NoResponse) (Failed NoResponse) (Failed NoResponse) Together k)) \<and>
   axiosSend (answering (Failed NoResponse) (Failed NoResponse) (Failed NoResponse) Together) 0 freshConfig =
     (Inl NoResponse, [2000, 4000, 8000])"
  using interceptor_retries_and_backoff
    [of "answering (Failed NoResponse) (Failed NoResponse) (Failed NoResponse)" Together]
  by (simp add: retryable_def noRetryStatus_def)

text \<open>
  C8 as stated fails: against a server that never answers, the default budget gives
  three retries, not two, and the first delay is two seconds, not one.
\<close>

theorem default_budget_counterexample:
  "axiosSend (always (Failed NoResponse)) 0 freshConfig = (Inl NoResponse, [2000, 4000, 8000]) \<and>
   length (snd (axiosSend (always (Failed NoResponse)) 0 freshConfig)) = 3 \<and>
   hd (snd (axiosSend (always (Failed NoResponse)) 0 freshConfig)) = 2000"
proof -
  have "\<forall>k. retryable (always (Failed NoResponse) k)"
    by (simp add: retryable_def always_def noRetryStatus_def)
  from axiosSend_all_retryable[OF this]
  obtain f where f: "always (Failed NoResponse) 3 = Failed f"
    and eq: "axiosSend (always (Failed NoResponse)) 0 freshConfig = (Inl f, [2000, 4000, 8000])"
    by blast
  from f have "f = NoResponse" by (simp add: always_def)
  with eq show ?thesis by simp
qed



















text \<open>
  C5, as amended. When the first handling of a request generated a result (it ended in
  a success that was not served from the cache), a second handling of the same request
  less than \<^verbatim>\<open>CACHE_DURATION\<close> after the entry was stored, under the same Solidity version,
  sends no provider request, leaves the cache as it is, and answers with the stored
  result and \<^verbatim>\<open>fromCache: true\<close>, whatever the providers would answer then.
\<close>

theorem cache_hit_serves_stored_result:
  assumes "fst (generate env clk cache rq) = Success d pt None"
    and "env_solidityVersion env' = env_solidityVersion env"
    and "checkTime clk' - storeTime clk < CACHE_DURATION"
  shows "generate env' clk' (fst (snd (generate env clk cache rq))) rq =
           (Success d (hitTime clk' - startTime clk') (Some True),
            fst (snd (generate env clk cache rq)), [])"
proof -
  from assms(1) have m: "generate env clk cache rq = generateMiss env clk cache rq"
    by (rule generate_fresh)
  with assms(1) have "fst (generateMiss env clk cache rq) = Success d pt None" by simp
  from generateMiss_Success[OF this] obtain analysis code securityAnalysis where
    d: "d = \<lparr>rd_analysis = analysis, rd_code = code,
              rd_vulnerabilities = extractVulnerabilities securityAnalysis,
              rd_recommendations = extractRecommendations securityAnalysis,
              rd_gasAnalysis = analyzeGasUsage code\<rparr>"
    and c: "fst (snd (generateMiss env clk cache rq)) =
             cache(requestKey (env_solidityVersion env) rq \<mapsto>
                     newEntry env clk rq analysis code securityAnalysis)"
    by blast
  let ?ce = "newEntry env clk rq analysis code securityAnalysis"
  have k: "fst (snd (generate env clk cache rq)) (requestKey (env_solidityVersion env') rq) = Some ?ce"
    by (simp add: m c assms(2))
  have t: "checkTime clk' - ce_timestamp ?ce < CACHE_DURATION"
    using assms(3) by simp
  from k t have "generate env' clk' (fst (snd (generate env clk cache rq))) rq =
     (Success
        \<lparr>rd_analysis = ce_analysis ?ce, rd_code = ce_code ?ce,
         rd_vulnerabilities = ce_vulnerabilities ?ce,
         rd_recommendations = ce_recommendations ?ce,
         rd_gasAnalysis = ce_gasAnalysis ?ce\<rparr>
        (hitTime clk' - startTime clk') (Some True),
      fst (snd (generate env clk cache rq)), [])"
    by (rule generate_hit)
  then show ?thesis by (simp add: d)
qed

theorem cache_hit_serves_stored_result_witness:
  "fst (generate (envOf (answering (Reply (Some sampleCode)) (Failed NoResponse) (Failed NoResponse)))
          (atTime 0) Map.empty sampleRequest) = Success sampleData 0 None \<and>
   checkTime (atTime 1000) - storeTime (atTime 0) < CACHE_DURATION \<and>
   generate (envOf (answering (Failed NoResponse) (Failed NoResponse) (Failed NoResponse)))
     (atTime 1000)
     (fst (snd (generate
        (envOf (answering (Reply (Some sampleCode)) (Failed NoResponse) (Failed NoResponse)))
        (atTime 0) Map.empty sampleRequest)))
     sampleRequest =
     (Success sampleData 0 (Some True),
      fst (snd (generate
        (envOf (answering (Reply (Some sampleCode)) (Failed NoResponse) (Failed NoResponse)))
        (atTime 0) Map.empty sampleRequest)),
      [])"
  using cache_hit_serves_stored_result
    [OF sample_run, of "envOf (answering (Failed NoResponse) (Failed NoResponse) (Failed NoResponse))"
       "Failed NoResponse" "Failed NoResponse" "atTime 1000"]
    sample_run[of "Failed NoResponse" "Failed NoResponse"]
  by (simp add: atTime_def CACHE_DURATION_def)

text \<open>
  C5 as stated fails: when the first handling ends in an error nothing is cached, and the
  second handling of the same request, one second later, calls the providers again.
\<close>

theorem failed_first_handling_counterexample:
  "validRequest sampleRequest \<and>
   checkTime (atTime 1000) - storeTime (atTime 0) < CACHE_DURATION \<and>
   snd (snd (generate (envOf (answering (Failed NoResponse) (Failed NoResponse) (Failed NoResponse)))
     (atTime 1000)
     (fst (snd (generate
        (envOf (answering (Failed NoResponse) (Failed NoResponse) (Failed NoResponse)))
        (atTime 0) Map.empty sampleRequest)))
     sampleRequest)) \<noteq> []"
proof -
  let ?env = "envOf (answering (Failed NoResponse) (Failed NoResponse) (Failed NoResponse))"
  have f: "\<exists>e. fst (processWithPersona (env_keys ?env) (env_servers ?env nanjunda)
               (taskPrompt sampleRequest nanjunda) nanjunda) = Inl e"
    by (simp add: processWithPersona_all_fail)
  have "fst (snd (generateMiss ?env (atTime 0) Map.empty sampleRequest)) = Map.empty"
    by (rule generateMiss_failed(2)[OF sampleRequest_valid]) (use f in blast)
  then have c: "fst (snd (generate ?env (atTime 0) Map.empty sampleRequest)) = Map.empty"
    by (simp add: generate_key)
  have "snd (snd (generateMiss ?env (atTime 1000) Map.empty sampleRequest)) \<noteq> []"
    unfolding generateMiss_calls[OF sampleRequest_valid]
    using processWithPersona_all_fail(2)[of "Failed NoResponse" "Failed NoResponse" "Failed NoResponse"]
    by simp
  then have "snd (snd (generate ?env (atTime 1000) Map.empty sampleRequest)) \<noteq> []"
    by (simp add: generate_key)
  with c sampleRequest_valid show ?thesis by (simp add: atTime_def CACHE_DURATION_def)
qed


text \<open>
  C6, as amended. In the endpoint with the three concurrent persona tasks, every request
  sent to a provider carries the system message of one of the personas and, as user
  prompt, the prompt of that persona's task, which is built from the request alone
  (\<open>taskPrompt\<close>): no answer of a provider enters a prompt.
\<close>

theorem persona_prompts_from_request:
  "\<forall>c \<in> set (snd (snd (generate env clk cache rq))).
     \<exists>p. pc_system c = systemMessage p \<and> pc_user c = taskPrompt rq p \<and>
         pc_maxTokens c = maxTokens p"
proof
  fix c assume c: "c \<in> set (snd (snd (generate env clk cache rq)))"
  then have m: "c \<in> set (snd (snd (generateMiss env clk cache rq)))"
    by (auto simp: generate_key split: option.splits if_splits)
  then have v: "validRequest rq"
    using generateMiss_invalid[of rq env clk cache] by (cases "validRequest rq") auto
  from m show "\<exists>p. pc_system c = systemMessage p \<and> pc_user c = taskPrompt rq p \<and>
         pc_maxTokens c = maxTokens p"
    unfolding generateMiss_calls[OF v] using processWithPersona_calls by fastforce
qed

theorem persona_prompts_from_request_witness:
  "map pc_user (snd (snd (generate (envOf (answering (Reply (Some sampleCode)) (Failed NoResponse) (Failed NoResponse)))
       (atTime 0) Map.empty sampleRequest))) =
     [taskPrompt sampleRequest nanjunda, taskPrompt sampleRequest achyutha,
      taskPrompt sampleRequest sandeep] \<and>
   (\<exists>p. pc_system (hd (snd (snd (generate (envOf (answering (Reply (Some sampleCode)) (Failed NoResponse) (Failed NoResponse)))
       (atTime 0) Map.empty sampleRequest)))) = systemMessage p \<and>
        pc_user (hd (snd (snd (generate (envOf (answering (Reply (Some sampleCode)) (Failed NoResponse) (Failed NoResponse)))
       (atTime 0) Map.empty sampleRequest)))) = taskPrompt sampleRequest p)"
  using persona_prompts_from_request
    [of "envOf (answering (Reply (Some sampleCode)) (Failed NoResponse) (Failed NoResponse))"
       "atTime 0" Map.empty sampleRequest]
  by (auto simp add: sample_calls simp del: taskPrompt.simps)

text \<open>
  C6 as stated fails for the handler of \<^verbatim>\<open>backend/src/server.ts\<close>, which runs the personas
  one after the other: the prompt of the code persona is the answer to the analysis
  persona, so two different analysis answers give two different code prompts.
\<close>

theorem sequential_prompt_counterexample:
  "snd (sequentialPersonas (replying ''first analysis'' ''code'' ''review'') ''request'') ! 1 =
     (achyutha, personaPrompts achyutha @ ''first analysis'') \<and>
   snd (sequentialPersonas (replying ''second analysis'' ''code'' ''review'') ''request'') ! 1 =
     (achyutha, personaPrompts achyutha @ ''second analysis'') \<and>
   snd (sequentialPersonas (replying ''first analysis'' ''code'' ''review'') ''request'') ! 1 \<noteq>
   snd (sequentialPersonas (replying ''second analysis'' ''code'' ''review'') ''request'') ! 1"
  by (simp add: sequentialPersonas_def processWithPersonaSeq_def)






text \<open>
  C2. The cache check of the endpoint does not go through \<^verbatim>\<open>getFromCache\<close>: for an entry
  stored one second earlier whose recorded dependency version \<^verbatim>\<open>^5.0.0\<close> is behind the
  latest version \<^verbatim>\<open>5.1.0\<close>, \<^verbatim>\<open>getFromCache\<close> returns no entry, while the endpoint serves
  the entry with \<^verbatim>\<open>fromCache: true\<close>.
\<close>

theorem endpoint_skips_dependency_check:
  "fst (getFromCache (latestIs ''5.1.0'') 1000
         (fst (snd (generate
            (envOf (answering (Reply (Some sampleCode)) (Failed NoResponse) (Failed NoResponse)))
            (atTime 0) Map.empty sampleRequest)))
         (requestKey None sampleRequest)) = None \<and>
   fst (generate (envOf (answering (Failed NoResponse) (Failed NoResponse) (Failed NoResponse)))
         (atTime 1000)
         (fst (snd (generate
            (envOf (answering (Reply (Some sampleCode)) (Failed NoResponse) (Failed NoResponse)))
            (atTime 0) Map.empty sampleRequest)))
         sampleRequest) = Success sampleData 0 (Some True)"
proof -
  let ?E = "envOf (answering (Reply (Some sampleCode)) (Failed NoResponse) (Failed NoResponse))"
  let ?F = "envOf (answering (Failed NoResponse) (Failed NoResponse) (Failed NoResponse))"
  let ?ce = "newEntry ?E (atTime 0) sampleRequest sampleCode sampleCode sampleCode"
  let ?C = "fst (snd (generate ?E (atTime 0) Map.empty sampleRequest))"
  have k: "?C (requestKey None sampleRequest) = Some ?ce" by (simp add: sample_cache)
  have "fst (getFromCache (latestIs ''5.1.0'') 1000 ?C (requestKey None sampleRequest)) = None"
    by (simp add: getFromCache_def k atTime_fields CACHE_DURATION_def latestIs_def Let_def)
  moreover have "generate ?F (atTime 1000) ?C sampleRequest =
     (Success
        \<lparr>rd_analysis = ce_analysis ?ce, rd_code = ce_code ?ce,
         rd_vulnerabilities = ce_vulnerabilities ?ce,
         rd_recommendations = ce_recommendations ?ce,
         rd_gasAnalysis = ce_gasAnalysis ?ce\<rparr>
        (hitTime (atTime 1000) - startTime (atTime 1000)) (Some True),
      ?C, [])"
    by (rule generate_hit) (simp_all add: k atTime_fields CACHE_DURATION_def)
  ultimately show ?thesis by (simp add: sampleData_def atTime_fields)
qed


end
